theory Spec2Isabelle
  imports Complex_Main
begin

section \<open>Numbers and truthiness\<close>

text \<open>
  The analyser reads JSON numbers out of dictionaries. A number is modelled as an exact
  rational (\<^typ>\<open>rat\<close>): Python's \<open>int\<close> and \<open>float\<close> values are both read as the
  rational they denote, and the rounding of binary floating point is not modelled. A
  dictionary field that may be missing or \<open>null\<close> is an \<open>option\<close>; \<open>None\<close> stands for both,
  since \<open>d.get(k)\<close> returns \<open>None\<close> for either and \<open>d.get(k, 0)\<close> returns the falsy
  \<open>0\<close> or the falsy \<open>None\<close>.
\<close>

definition truthy :: "rat option \<Rightarrow> bool" where
  \<comment> \<open>Python's \<open>if v:\<close> for a number or \<open>None\<close>.\<close>
  "truthy v = (case v of None \<Rightarrow> False | Some x \<Rightarrow> x \<noteq> 0)"

definition num :: "rat option \<Rightarrow> rat" where
  \<comment> \<open>The number held by a field; only read under a \<^const>\<open>truthy\<close> guard in the code.\<close>
  "num v = (case v of None \<Rightarrow> 0 | Some x \<Rightarrow> x)"

section \<open>The API payload of \<open>companyInfoSummery\<close>\<close>

text \<open>
  \<open>reqSymbolInfo\<close> and \<open>reqSymbolBetaInfo\<close>, with the fields that
  \<open>company_analyzer.py\<close> computes with or that the aggregation later reads
  (\<open>si_symbol\<close> and \<open>si_name\<close> are the keys \<open>symbol\<close> and \<open>name\<close>). Fields that are only
  copied through (\<open>isin\<close>, \<open>issueDate\<close>, \<open>parValue\<close>, the all-time range, the foreign
  holdings, the logo) are read by no operation below and are left out.
\<close>

record symbol_info =
  si_symbol :: "string option"
  si_name :: "string option"
  lastTradedPrice :: "rat option"
  previousClose :: "rat option"
  changePercentage :: "rat option"
  ytdHiPrice :: "rat option"
  ytdLowPrice :: "rat option"
  p12HiPrice :: "rat option"
  p12LowPrice :: "rat option"
  marketCap :: "rat option"
  quantityIssued :: "rat option"
  tdyShareVolume :: "rat option"
  tdyTurnover :: "rat option"
  ytdShareVolume :: "rat option"
  ytdTurnover :: "rat option"

record beta_info =
  triASIBetaValue :: "rat option"
  betaValueSPSL :: "rat option"

definition empty_symbol_info :: symbol_info where
  \<comment> \<open>The default \<open>{}\<close> of \<open>company_data.get('reqSymbolInfo', {})\<close>.\<close>
  "empty_symbol_info =
     \<lparr>si_symbol = None, si_name = None, lastTradedPrice = None, previousClose = None,
      changePercentage = None, ytdHiPrice = None, ytdLowPrice = None, p12HiPrice = None,
      p12LowPrice = None, marketCap = None, quantityIssued = None, tdyShareVolume = None,
      tdyTurnover = None, ytdShareVolume = None, ytdTurnover = None\<rparr>"

definition empty_beta_info :: beta_info where
  "empty_beta_info = \<lparr>triASIBetaValue = None, betaValueSPSL = None\<rparr>"

section \<open>Metric derivation: \<open>calculate_investment_metrics\<close>\<close>

datatype risk = High_Risk | Medium_Risk | Low_Risk | Very_Low_Risk

text \<open>The \<open>metrics\<close> dictionary: a key that the code never sets is \<open>None\<close>.\<close>

record metrics =
  price_change_pct :: "rat option"
  ytd_volatility :: "rat option"
  position_in_ytd_range :: "rat option"
  p12_volatility :: "rat option"
  position_in_p12_range :: "rat option"
  book_value_per_share :: "rat option"
  avg_price_ytd :: "rat option"
  price_vs_ytd_avg :: "rat option"
  risk_category :: "risk option"

definition risk_of_beta :: "rat \<Rightarrow> risk" where
  \<comment> \<open>The \<open>if/elif/else\<close> chain of lines 108 to 115.\<close>
  "risk_of_beta b =
     (if b > 3 / 2 then High_Risk
      else if b > 1 then Medium_Risk
      else if b > 1 / 2 then Low_Risk
      else Very_Low_Risk)"

definition calculate_investment_metrics :: "symbol_info \<Rightarrow> beta_info \<Rightarrow> metrics" where
  "calculate_investment_metrics symbol_info beta_info =
     (let last_price = lastTradedPrice symbol_info;
          prev_close = previousClose symbol_info;
          ytd_high = ytdHiPrice symbol_info;
          ytd_low = ytdLowPrice symbol_info;
          p12_high = p12HiPrice symbol_info;
          p12_low = p12LowPrice symbol_info;
          market_cap = marketCap symbol_info;
          quantity_issued = quantityIssued symbol_info;
          ytd_volume = ytdShareVolume symbol_info;
          ytd_turnover = ytdTurnover symbol_info;
          beta_asi = triASIBetaValue beta_info;
          ytd_ok = (truthy ytd_high \<and> truthy ytd_low \<and> ytd_high \<noteq> ytd_low);
          p12_ok = (truthy p12_high \<and> truthy p12_low \<and> p12_high \<noteq> p12_low);
          avg_ok = (truthy ytd_volume \<and> truthy ytd_turnover);
          avg = num ytd_turnover / num ytd_volume
      in \<lparr>price_change_pct =
              (if truthy last_price \<and> truthy prev_close
               then Some ((num last_price - num prev_close) / num prev_close * 100)
               else None),
            ytd_volatility =
              (if ytd_ok then Some ((num ytd_high - num ytd_low) / num ytd_low * 100)
               else None),
            position_in_ytd_range =
              (if ytd_ok \<and> truthy last_price
               then Some ((num last_price - num ytd_low) / (num ytd_high - num ytd_low) * 100)
               else None),
            p12_volatility =
              (if p12_ok then Some ((num p12_high - num p12_low) / num p12_low * 100)
               else None),
            position_in_p12_range =
              (if p12_ok \<and> truthy last_price
               then Some ((num last_price - num p12_low) / (num p12_high - num p12_low) * 100)
               else None),
            book_value_per_share =
              (if truthy market_cap \<and> truthy quantity_issued
               then Some (num market_cap / num quantity_issued)
               else None),
            avg_price_ytd = (if avg_ok then Some avg else None),
            price_vs_ytd_avg =
              (if avg_ok \<and> truthy last_price \<and> avg \<noteq> 0
               then Some ((num last_price - avg) / avg * 100)
               else None),
            risk_category =
              (if truthy beta_asi then Some (risk_of_beta (num beta_asi)) else None)\<rparr>)"

section \<open>Extraction: \<open>extract_comprehensive_data\<close>\<close>

text \<open>
  A key of the response body is missing, \<open>null\<close>, or holds an object.
  \<open>company_data.get(k, {})\<close> gives the empty dictionary for a missing key and \<open>None\<close> for
  \<open>null\<close>; a later \<open>.get\<close> on \<open>None\<close> raises \<open>AttributeError\<close>, which the function's
  \<open>except Exception\<close> turns into the result \<open>{}\<close>.
\<close>

datatype 'a jfield = Missing | Null | Obj 'a

record company_data =
  reqSymbolInfo :: "symbol_info jfield"
  reqSymbolBetaInfo :: "beta_info jfield"

datatype body = Body_Dict company_data | Body_Other

definition get_or :: "'a jfield \<Rightarrow> 'a \<Rightarrow> 'a option" where
  "get_or f d = (case f of Missing \<Rightarrow> Some d | Null \<Rightarrow> None | Obj x \<Rightarrow> Some x)"

text \<open>
  \<open>base_data\<close> after \<open>base_data.update(investment_metrics)\<close>. The keys of the two
  dictionaries are disjoint, so the merged dictionary is the base keys together with the
  metrics (field \<open>derived\<close>). A base key is always set, to \<open>None\<close> when the payload lacks
  it; a metric key is set only when the metric was computed.
\<close>

record analysis =
  symbol :: "string option"
  name :: "string option"
  last_traded_price :: "rat option"
  previous_close :: "rat option"
  change_percentage :: "rat option"
  ytd_high :: "rat option"
  ytd_low :: "rat option"
  p12_high :: "rat option"
  p12_low :: "rat option"
  quantity_issued :: "rat option"
  today_volume :: "rat option"
  today_turnover :: "rat option"
  ytd_volume :: "rat option"
  ytd_turnover :: "rat option"
  market_cap :: "rat option"
  tri_asi_beta :: "rat option"
  spsl_beta :: "rat option"
  derived :: metrics

definition extract_comprehensive_data :: "body \<Rightarrow> analysis option" where
  \<comment> \<open>\<open>None\<close> is the \<open>{}\<close> returned by the \<open>except\<close> branch.\<close>
  "extract_comprehensive_data b =
     (case b of
        Body_Other \<Rightarrow> None
      | Body_Dict d \<Rightarrow>
          (case get_or (reqSymbolInfo d) empty_symbol_info of
             None \<Rightarrow> None
           | Some symbol_info \<Rightarrow>
               (case get_or (reqSymbolBetaInfo d) empty_beta_info of
                  None \<Rightarrow> None
                | Some beta_info \<Rightarrow>
                    Some \<lparr>symbol = si_symbol symbol_info,
                          name = si_name symbol_info,
                          last_traded_price = lastTradedPrice symbol_info,
                          previous_close = previousClose symbol_info,
                          change_percentage = changePercentage symbol_info,
                          ytd_high = ytdHiPrice symbol_info,
                          ytd_low = ytdLowPrice symbol_info,
                          p12_high = p12HiPrice symbol_info,
                          p12_low = p12LowPrice symbol_info,
                          quantity_issued = quantityIssued symbol_info,
                          today_volume = tdyShareVolume symbol_info,
                          today_turnover = tdyTurnover symbol_info,
                          ytd_volume = ytdShareVolume symbol_info,
                          ytd_turnover = ytdTurnover symbol_info,
                          market_cap = marketCap symbol_info,
                          tri_asi_beta = triASIBetaValue beta_info,
                          spsl_beta = betaValueSPSL beta_info,
                          derived = calculate_investment_metrics symbol_info beta_info\<rparr>)))"

section \<open>The API client and the per-company loop: \<open>analyze_companies\<close>\<close>

text \<open>
  \<open>CSE_API._make_request\<close> returns one of two dictionaries: \<open>success\<close>, \<open>status_code\<close> and
  \<open>data\<close>, or \<open>success = False\<close>, \<open>error\<close> and an optional \<open>status_code\<close>. The remote
  service is a parameter of the model: a function from the request's argument to the
  response. Calls to the service and to \<open>time.sleep\<close> are recorded, in order, in a list
  of events.
\<close>

datatype 'b response = Success nat 'b | Failure string "nat option"

datatype event = Request string "string option" | Sleep rat

datatype exn = TypeError string | KeyError string | AttributeError string

text \<open>
  An entry of \<open>company_data\<close> is a dictionary. \<open>company.get('symbol')\<close> is \<open>None\<close> when the key
  is missing or \<open>null\<close>; for \<open>company.get('name', 'Unknown')\<close> the two differ: the default
  applies to a missing key only, and a \<open>null\<close> name stays \<open>None\<close>.
\<close>

record company =
  c_symbol :: "string option"
  c_name :: "string jfield"

record company_analysis =
  extracted :: "analysis option"
  source_data :: company

record failed_request =
  f_symbol :: "string option"
  f_name :: "string option"
  f_error :: string

record analyzer =
  company_data :: "company list"
  analysis_results :: "company_analysis list"
  failed_requests :: "failed_request list"
  events :: "event list"

definition get_company_summary ::
  "(string option \<Rightarrow> body response) \<Rightarrow> string option \<Rightarrow> string + body" where
  \<comment> \<open>\<open>Inr\<close> is \<open>{'success': True, 'data': ...}\<close>, \<open>Inl\<close> is \<open>{'success': False, 'error': ...}\<close>.\<close>
  "get_company_summary api sy =
     (case api sy of Success _ d \<Rightarrow> Inr d | Failure e _ \<Rightarrow> Inl e)"

definition display_ok :: "company_analysis \<Rightarrow> bool" where
  \<comment> \<open>Line 227 formats \<open>company_analysis.get('change_percentage', 0)\<close> with \<open>+.2f\<close>: the
      default applies only to the empty dictionary; a key set to \<open>None\<close> raises
      \<open>TypeError\<close>.\<close>
  "display_ok ca =
     (case extracted ca of None \<Rightarrow> True | Some a \<Rightarrow> change_percentage a \<noteq> None)"

definition log_event :: "event \<Rightarrow> analyzer \<Rightarrow> analyzer" where
  "log_event e st = st\<lparr>events := events st @ [e]\<rparr>"

definition delay_step :: "rat \<Rightarrow> nat \<Rightarrow> nat \<Rightarrow> analyzer \<Rightarrow> analyzer" where
  \<comment> \<open>\<open>if i < total_companies: time.sleep(delay)\<close>\<close>
  "delay_step delay total_n i st = (if i < total_n then log_event (Sleep delay) st else st)"

fun analyze_loop ::
  "(string option \<Rightarrow> body response) \<Rightarrow> rat \<Rightarrow> nat \<Rightarrow> nat \<Rightarrow> company list \<Rightarrow> analyzer
   \<Rightarrow> analyzer \<times> exn option" where
  "analyze_loop api delay total_n i [] st = (st, None)"
| "analyze_loop api delay total_n i (c # cs) st =
     (let sy = c_symbol c;
          nm = get_or (c_name c) ''Unknown'';
          st1 = log_event (Request ''companyInfoSummery'' sy) st
      in case get_company_summary api sy of
           Inr d \<Rightarrow>
             (let ca = \<lparr>extracted = extract_comprehensive_data d, source_data = c\<rparr>;
                  st2 = st1\<lparr>analysis_results := analysis_results st1 @ [ca]\<rparr>
              in if display_ok ca
                 then analyze_loop api delay total_n (i + 1) cs (delay_step delay total_n i st2)
                 else (st2, Some (TypeError ''unsupported format string passed to NoneType.__format__'')))
         | Inl err \<Rightarrow>
             (let st2 = st1\<lparr>failed_requests := failed_requests st1 @
                               [\<lparr>f_symbol = sy, f_name = nm, f_error = err\<rparr>]\<rparr>
              in analyze_loop api delay total_n (i + 1) cs (delay_step delay total_n i st2)))"

definition slice_to :: "int \<Rightarrow> 'a list \<Rightarrow> 'a list" where
  \<comment> \<open>Python's \<open>xs[:k]\<close>, a negative \<open>k\<close> counting from the end.\<close>
  "slice_to k xs = (if 0 \<le> k then take (nat k) xs else take (nat (int (length xs) + k)) xs)"

definition companies_to_analyze :: "int option \<Rightarrow> analyzer \<Rightarrow> company list" where
  \<comment> \<open>\<open>self.company_data[:limit] if limit else self.company_data\<close>\<close>
  "companies_to_analyze limit st =
     (case limit of
        None \<Rightarrow> company_data st
      | Some k \<Rightarrow> if k \<noteq> 0 then slice_to k (company_data st) else company_data st)"

definition analyze_companies ::
  "(string option \<Rightarrow> body response) \<Rightarrow> int option \<Rightarrow> rat \<Rightarrow> analyzer
   \<Rightarrow> analyzer \<times> exn option" where
  \<comment> \<open>The state after the call, and the exception that ended it, if any.\<close>
  "analyze_companies api limit delay st =
     (if company_data st = [] then (st, None)
      else
        (let cs = companies_to_analyze limit st
         in analyze_loop api delay (length cs) 1 cs st))"

text \<open>
  Names for what one iteration does: the request it sends, the dictionary it appends to
  \<open>failed_requests\<close> (lines 235 to 239), and a list with a separator between neighbours,
  the shape of a sequence of calls with a pause after each but the last.
\<close>

definition request_of :: "company \<Rightarrow> event" where
  "request_of c = Request ''companyInfoSummery'' (c_symbol c)"

definition failure_of :: "company \<Rightarrow> string \<Rightarrow> failed_request" where
  "failure_of c e =
     \<lparr>f_symbol = c_symbol c,
      f_name = get_or (c_name c) ''Unknown'',
      f_error = e\<rparr>"

definition record_of :: "company \<Rightarrow> body \<Rightarrow> company_analysis" where
  "record_of c d = \<lparr>extracted = extract_comprehensive_data d, source_data = c\<rparr>"

text \<open>
  What one company adds to \<open>failed_requests\<close> and to \<open>analysis_results\<close>.
\<close>

definition fetch_failures :: "(string option \<Rightarrow> body response) \<Rightarrow> company \<Rightarrow> failed_request list" where
  "fetch_failures api c =
     (case api (c_symbol c) of Failure e _ \<Rightarrow> [failure_of c e] | Success _ _ \<Rightarrow> [])"

definition fetch_records :: "(string option \<Rightarrow> body response) \<Rightarrow> company \<Rightarrow> company_analysis list" where
  "fetch_records api c =
     (case api (c_symbol c) of Failure _ _ \<Rightarrow> [] | Success _ d \<Rightarrow> [record_of c d])"

fun spaced :: "'a \<Rightarrow> 'a list \<Rightarrow> 'a list" where
  "spaced s [] = []"
| "spaced s [x] = [x]"
| "spaced s (x # y # ys) = x # s # spaced s (y # ys)"

section \<open>The per-letter roster loop: \<open>CSE_API.get_all_companies\<close>\<close>

text \<open>
  The body of a successful \<open>alphabetical\<close> response is whatever JSON the service sent. The
  code tells apart an object with the key \<open>reqAlphabetical\<close>, a list, and anything else
  (lines 151 to 154); what is under the key is again any JSON value, and so is each
  element of a list. The model keeps of these values what the code observes: of a value
  under the key its type and whether it is truthy, of a list element whether it is a
  dictionary, and of a dictionary whether its \<open>lastTradedTime\<close> is \<open>None\<close> (missing or
  \<open>null\<close>).
\<close>

record roster_company =
  rc_symbol :: "string option"
  rc_name :: "string option"
  lastTradedTime :: "int option"

datatype roster_entry =
  Entry roster_company
| Not_a_dict \<comment> \<open>a number, a string, a Boolean, \<open>null\<close> or a list\<close>

datatype roster_value =
  Null_value
| Bool_value bool
| Number_value rat
| String_value string
| List_value "roster_entry list"
| Dict_value "string list" \<comment> \<open>an object, by its keys\<close>

datatype roster_body =
  Dict_reqAlphabetical roster_value
| Bare_list "roster_entry list"
| Other_body

record letter_failure =
  letter :: string
  error :: string

record roster_result =
  success :: bool
  total_companies :: nat
  active_companies :: nat
  data :: "roster_entry list \<times> roster_entry list"
  roster_failed_requests :: "letter_failure list"
  status_code :: nat

record roster_state =
  all_companies :: "roster_entry list"
  failed :: "letter_failure list"
  roster_events :: "event list"

definition ascii_uppercase :: "string list" where
  \<comment> \<open>\<open>string.ascii_uppercase\<close>, one string per letter.\<close>
  "ascii_uppercase = map (\<lambda>c. [c]) ''ABCDEFGHIJKLMNOPQRSTUVWXYZ''"

definition upper :: "string \<Rightarrow> string" where
  \<comment> \<open>\<open>str.upper\<close> on ASCII letters.\<close>
  "upper s =
     map (\<lambda>c. if c \<in> set ''abcdefghijklmnopqrstuvwxyz''
              then char_of (of_char c - (32 :: nat)) else c) s"

definition get_companies_by_alphabet ::
  "(string \<Rightarrow> roster_body response) \<Rightarrow> string \<Rightarrow> roster_body response" where
  "get_companies_by_alphabet api alphabet = api (upper alphabet)"

definition companies_of :: "roster_body \<Rightarrow> roster_value" where
  \<comment> \<open>Lines 148 to 154: \<open>companies\<close> is \<open>[]\<close> unless one of the two shapes is met.\<close>
  "companies_of d =
     (case d of
        Dict_reqAlphabetical v \<Rightarrow> v
      | Bare_list cs \<Rightarrow> List_value cs
      | Other_body \<Rightarrow> List_value [])"

definition truthy_value :: "roster_value \<Rightarrow> bool" where
  \<comment> \<open>\<open>if companies:\<close>\<close>
  "truthy_value v =
     (case v of
        Null_value \<Rightarrow> False
      | Bool_value b \<Rightarrow> b
      | Number_value n \<Rightarrow> n \<noteq> 0
      | String_value s \<Rightarrow> s \<noteq> []
      | List_value cs \<Rightarrow> cs \<noteq> []
      | Dict_value ks \<Rightarrow> ks \<noteq> [])"

definition items_of :: "roster_value \<Rightarrow> exn + roster_entry list" where
  \<comment> \<open>What \<open>all_companies.extend(companies)\<close> appends: the elements of a list, the
      characters of a string, the keys of an object; any other value is not iterable.\<close>
  "items_of v =
     (case v of
        List_value cs \<Rightarrow> Inr cs
      | String_value s \<Rightarrow> Inr (map (\<lambda>_. Not_a_dict) s)
      | Dict_value ks \<Rightarrow> Inr (map (\<lambda>_. Not_a_dict) ks)
      | _ \<Rightarrow> Inl (TypeError ''object is not iterable''))"

fun roster_loop ::
  "(string \<Rightarrow> roster_body response) \<Rightarrow> string list \<Rightarrow> roster_state
   \<Rightarrow> roster_state \<times> exn option" where
  "roster_loop api [] st = (st, None)"
| "roster_loop api (l # ls) st =
     (let st1 = st\<lparr>roster_events := roster_events st @ [Request ''alphabetical'' (Some (upper l))]\<rparr>
      in case get_companies_by_alphabet api l of
           Success _ d \<Rightarrow>
             (let companies = companies_of d
              in if truthy_value companies
                 then (case items_of companies of
                         Inl e \<Rightarrow> (st1, Some e)
                       | Inr cs \<Rightarrow>
                           roster_loop api ls (st1\<lparr>all_companies := all_companies st1 @ cs\<rparr>))
                 else roster_loop api ls st1)
         | Failure e _ \<Rightarrow>
             roster_loop api ls
               (st1\<lparr>failed := failed st1 @ [\<lparr>letter = l, error = e\<rparr>]\<rparr>))"

fun select_active :: "roster_entry list \<Rightarrow> exn + roster_entry list" where
  \<comment> \<open>Line 170: \<open>[c for c in all_companies if c.get('lastTradedTime') is not None]\<close>;
      only a dictionary has \<open>get\<close>.\<close>
  "select_active [] = Inr []"
| "select_active (Not_a_dict # cs) = Inl (AttributeError ''object has no attribute get'')"
| "select_active (Entry c # cs) =
     (case select_active cs of
        Inl e \<Rightarrow> Inl e
      | Inr active \<Rightarrow> Inr (if lastTradedTime c \<noteq> None then Entry c # active else active))"

definition get_all_companies ::
  "(string \<Rightarrow> roster_body response) \<Rightarrow> (exn + roster_result) \<times> event list" where
  \<comment> \<open>The dictionary returned, or the exception raised, and the requests made.\<close>
  "get_all_companies api =
     (let run = roster_loop api ascii_uppercase
                  \<lparr>all_companies = [], failed = [], roster_events = []\<rparr>;
          st = fst run
      in (case snd run of
            Some e \<Rightarrow> (Inl e, roster_events st)
          | None \<Rightarrow>
              (case select_active (all_companies st) of
                 Inl e \<Rightarrow> (Inl e, roster_events st)
               | Inr active \<Rightarrow>
                   (Inr \<lparr>success = True,
                         total_companies = length (all_companies st),
                         active_companies = length active,
                         data = (all_companies st, active),
                         roster_failed_requests = failed st,
                         status_code = 200\<rparr>,
                    roster_events st))))"

text \<open>
  Names for what one letter adds to \<open>all_companies\<close> and to \<open>failed_requests\<close>, for the
  entries line 170 keeps, and for the bodies on which the loop and line 170 cannot raise:
  those whose \<open>companies\<close> is falsy or a list of dictionaries.
\<close>

definition is_dict :: "roster_entry \<Rightarrow> bool" where
  "is_dict c = (case c of Entry _ \<Rightarrow> True | Not_a_dict \<Rightarrow> False)"

definition is_active :: "roster_entry \<Rightarrow> bool" where
  "is_active c = (case c of Entry d \<Rightarrow> lastTradedTime d \<noteq> None | Not_a_dict \<Rightarrow> False)"

definition well_formed :: "roster_body response \<Rightarrow> bool" where
  "well_formed r =
     (case r of
        Failure _ _ \<Rightarrow> True
      | Success _ d \<Rightarrow>
          (case companies_of d of
             List_value cs \<Rightarrow> list_all is_dict cs
           | v \<Rightarrow> \<not> truthy_value v))"

definition letter_companies :: "(string \<Rightarrow> roster_body response) \<Rightarrow> string \<Rightarrow> roster_entry list" where
  "letter_companies api l =
     (case get_companies_by_alphabet api l of
        Success _ d \<Rightarrow> (case companies_of d of List_value cs \<Rightarrow> cs | _ \<Rightarrow> [])
      | Failure _ _ \<Rightarrow> [])"

definition letter_failures :: "(string \<Rightarrow> roster_body response) \<Rightarrow> string \<Rightarrow> letter_failure list" where
  "letter_failures api l =
     (case get_companies_by_alphabet api l of
        Success _ d \<Rightarrow> []
      | Failure e _ \<Rightarrow> [\<lparr>letter = l, error = e\<rparr>])"

section \<open>The data frame of analysis records\<close>

text \<open>
  \<open>pd.DataFrame(self.analysis_results)\<close>: one row per record, one column per key that some
  record has. Only the columns that the aggregation reads are modelled. A cell is a
  number, a string, or missing (\<open>NaN\<close>, which also stands for \<open>None\<close>): a record without
  the key, or with the value \<open>None\<close>, has a missing cell. As in the data-frame library, a
  comparison with a missing cell is false, and sums, means, medians, quantiles, maxima and
  minima skip missing cells; quantiles interpolate linearly between neighbouring order
  statistics. Indexing a column that no record has raises \<open>KeyError\<close>.
\<close>

datatype column =
  Symbol | Name | Last_traded_price | Market_cap | Tri_asi_beta | Change_percentage
| Today_volume | Today_turnover | Position_in_ytd_range | Ytd_volatility

datatype cell = Num rat | Str string | NaN

definition of_num :: "rat option \<Rightarrow> cell" where
  "of_num v = (case v of None \<Rightarrow> NaN | Some x \<Rightarrow> Num x)"

definition of_str :: "string option \<Rightarrow> cell" where
  "of_str v = (case v of None \<Rightarrow> NaN | Some s \<Rightarrow> Str s)"

fun column_name :: "column \<Rightarrow> string" where
  "column_name Symbol = ''symbol''"
| "column_name Name = ''name''"
| "column_name Last_traded_price = ''last_traded_price''"
| "column_name Market_cap = ''market_cap''"
| "column_name Tri_asi_beta = ''tri_asi_beta''"
| "column_name Change_percentage = ''change_percentage''"
| "column_name Today_volume = ''today_volume''"
| "column_name Today_turnover = ''today_turnover''"
| "column_name Position_in_ytd_range = ''position_in_ytd_range''"
| "column_name Ytd_volatility = ''ytd_volatility''"

fun row_cell :: "column \<Rightarrow> analysis \<Rightarrow> cell" where
  "row_cell Symbol a = of_str (symbol a)"
| "row_cell Name a = of_str (name a)"
| "row_cell Last_traded_price a = of_num (last_traded_price a)"
| "row_cell Market_cap a = of_num (market_cap a)"
| "row_cell Tri_asi_beta a = of_num (tri_asi_beta a)"
| "row_cell Change_percentage a = of_num (change_percentage a)"
| "row_cell Today_volume a = of_num (today_volume a)"
| "row_cell Today_turnover a = of_num (today_turnover a)"
| "row_cell Position_in_ytd_range a = of_num (position_in_ytd_range (derived a))"
| "row_cell Ytd_volatility a = of_num (ytd_volatility (derived a))"

fun is_metric :: "column \<Rightarrow> bool" where
  "is_metric Position_in_ytd_range = True"
| "is_metric Ytd_volatility = True"
| "is_metric c = False"

definition cell :: "column \<Rightarrow> company_analysis \<Rightarrow> cell" where
  \<comment> \<open>The empty dictionary of a failed extraction has no key at all.\<close>
  "cell c r = (case extracted r of None \<Rightarrow> NaN | Some a \<Rightarrow> row_cell c a)"

definition has_key :: "column \<Rightarrow> company_analysis \<Rightarrow> bool" where
  \<comment> \<open>A base key is in every extracted record; a metric key only when it was computed.\<close>
  "has_key c r =
     (case extracted r of
        None \<Rightarrow> False
      | Some a \<Rightarrow> if is_metric c then row_cell c a \<noteq> NaN else True)"

record dataframe =
  columns :: "column list"
  rows :: "company_analysis list"

definition all_columns :: "column list" where
  "all_columns =
     [Symbol, Name, Last_traded_price, Market_cap, Tri_asi_beta, Change_percentage,
      Today_volume, Today_turnover, Position_in_ytd_range, Ytd_volatility]"

definition DataFrame :: "company_analysis list \<Rightarrow> dataframe" where
  "DataFrame rs = \<lparr>columns = filter (\<lambda>c. list_ex (has_key c) rs) all_columns, rows = rs\<rparr>"

definition missing :: "dataframe \<Rightarrow> column list \<Rightarrow> exn option" where
  \<comment> \<open>The \<open>KeyError\<close> of the first of the columns, in the order they are indexed, that the
      frame does not have.\<close>
  "missing df cs =
     (case filter (\<lambda>c. c \<notin> set (columns df)) cs of
        [] \<Rightarrow> None
      | c # _ \<Rightarrow> Some (KeyError (column_name c)))"

definition select :: "(company_analysis \<Rightarrow> bool) \<Rightarrow> dataframe \<Rightarrow> dataframe" where
  \<comment> \<open>\<open>df[mask]\<close>: the rows where the mask holds, the columns unchanged.\<close>
  "select p df = df\<lparr>rows := filter p (rows df)\<rparr>"

definition col :: "dataframe \<Rightarrow> column \<Rightarrow> cell list" where
  "col df c = map (cell c) (rows df)"

definition notna :: "cell \<Rightarrow> bool" where
  "notna v = (v \<noteq> NaN)"

definition gt :: "cell \<Rightarrow> rat \<Rightarrow> bool" where
  "gt v x = (case v of Num y \<Rightarrow> x < y | _ \<Rightarrow> False)"

definition lt :: "cell \<Rightarrow> rat \<Rightarrow> bool" where
  "lt v x = (case v of Num y \<Rightarrow> y < x | _ \<Rightarrow> False)"

definition ge :: "cell \<Rightarrow> rat \<Rightarrow> bool" where
  "ge v x = (case v of Num y \<Rightarrow> x \<le> y | _ \<Rightarrow> False)"

definition le :: "cell \<Rightarrow> rat \<Rightarrow> bool" where
  "le v x = (case v of Num y \<Rightarrow> y \<le> x | _ \<Rightarrow> False)"

definition eq :: "cell \<Rightarrow> rat \<Rightarrow> bool" where
  "eq v x = (case v of Num y \<Rightarrow> y = x | _ \<Rightarrow> False)"

definition gt_stat :: "cell \<Rightarrow> rat option \<Rightarrow> bool" where
  \<comment> \<open>Comparison with a statistic, which is \<open>NaN\<close> (here \<open>None\<close>) over no value.\<close>
  "gt_stat v t = (case t of None \<Rightarrow> False | Some x \<Rightarrow> gt v x)"

definition lt_stat :: "cell \<Rightarrow> rat option \<Rightarrow> bool" where
  "lt_stat v t = (case t of None \<Rightarrow> False | Some x \<Rightarrow> lt v x)"

definition le_stat :: "cell \<Rightarrow> rat option \<Rightarrow> bool" where
  "le_stat v t = (case t of None \<Rightarrow> False | Some x \<Rightarrow> le v x)"

fun nums :: "cell list \<Rightarrow> rat list" where
  "nums [] = []"
| "nums (Num x # vs) = x # nums vs"
| "nums (v # vs) = nums vs"

definition series_sum :: "cell list \<Rightarrow> rat" where
  "series_sum vs = sum_list (nums vs)"

definition series_mean :: "cell list \<Rightarrow> rat option" where
  "series_mean vs =
     (if nums vs = [] then None
      else Some (sum_list (nums vs) / of_nat (length (nums vs))))"

definition series_max :: "cell list \<Rightarrow> rat option" where
  "series_max vs = (case nums vs of [] \<Rightarrow> None | x # xs \<Rightarrow> Some (fold max xs x))"

definition series_min :: "cell list \<Rightarrow> rat option" where
  "series_min vs = (case nums vs of [] \<Rightarrow> None | x # xs \<Rightarrow> Some (fold min xs x))"

definition quantile :: "rat \<Rightarrow> cell list \<Rightarrow> rat option" where
  \<comment> \<open>Linear interpolation at position \<open>q * (n - 1)\<close> of the sorted values, \<open>0 \<le> q \<le> 1\<close>.\<close>
  "quantile q vs =
     (let s = sort (nums vs); n = length s
      in if n = 0 then None
         else
           (let pos = q * of_nat (n - 1);
                lo = nat \<lfloor>pos\<rfloor>;
                hi = min (lo + 1) (n - 1);
                frac = pos - of_nat lo
            in Some (s ! lo + (s ! hi - s ! lo) * frac)))"

definition median :: "cell list \<Rightarrow> rat option" where
  "median vs =
     (let s = sort (nums vs); n = length s
      in if n = 0 then None
         else if odd n then Some (s ! (n div 2))
         else Some ((s ! (n div 2 - 1) + s ! (n div 2)) / 2))"

definition key_of :: "column \<Rightarrow> company_analysis \<Rightarrow> rat" where
  "key_of c r = (case cell c r of Num x \<Rightarrow> x | _ \<Rightarrow> 0)"

definition sort_values :: "column \<Rightarrow> bool \<Rightarrow> dataframe \<Rightarrow> dataframe" where
  \<comment> \<open>Rows in the order of the column, missing cells last. Rows with equal keys keep
      their order here; the library's default sort does not promise an order for them.\<close>
  "sort_values c ascending df =
     df\<lparr>rows :=
          (let present = filter (\<lambda>r. notna (cell c r)) (rows df);
               absent = filter (\<lambda>r. \<not> notna (cell c r)) (rows df)
           in (if ascending then sort_key (key_of c) present
               else sort_key (\<lambda>r. - key_of c r) present) @ absent)\<rparr>"

type_synonym entry = "(column \<times> cell) list"

definition to_dict :: "column list \<Rightarrow> company_analysis \<Rightarrow> entry" where
  "to_dict cs r = map (\<lambda>c. (c, cell c r)) cs"

definition head_records :: "column list \<Rightarrow> nat \<Rightarrow> dataframe \<Rightarrow> entry list" where
  \<comment> \<open>\<open>df[cols].head(n).to_dict('records')\<close>\<close>
  "head_records cs n df = map (to_dict cs) (take n (rows df))"

definition count :: "(company_analysis \<Rightarrow> bool) \<Rightarrow> dataframe \<Rightarrow> nat" where
  \<comment> \<open>\<open>len(df[mask])\<close>\<close>
  "count p df = length (filter p (rows df))"

section \<open>Aggregation: \<open>generate_investment_analysis\<close>\<close>

text \<open>
  The result of a section of the report: the empty dictionary, a dictionary with only a
  \<open>note\<close>, or the section's statistics.
\<close>

datatype 'a part = Empty | Note string | Part 'a

record summary =
  summary_total_companies :: nat
  summary_active_companies :: nat
  summary_inactive_companies :: int
  analysis_date :: string

record market_overview =
  total_market_capitalization :: rat
  average_market_cap :: "rat option"
  median_market_cap :: "rat option"
  large_cap :: nat
  mid_cap :: nat
  small_cap :: nat
  average_price :: "rat option"
  median_price :: "rat option"
  highest_price :: "rat option"
  lowest_price :: "rat option"

record valuation =
  near_highs :: nat
  mid_range :: nat
  near_lows :: nat
  average_position :: "rat option"
  high_volatility :: nat
  medium_volatility :: nat
  low_volatility :: nat

record risk_profile =
  high_risk :: nat
  medium_risk :: nat
  low_risk :: nat
  very_low_risk :: nat
  average_beta :: "rat option"
  median_beta :: "rat option"
  highest_beta :: "rat option"
  lowest_beta :: "rat option"

record daily_performance =
  gainers :: nat
  losers :: nat
  unchanged :: nat
  average_change :: "rat option"
  best_performer :: "rat option"
  worst_performer :: "rat option"

record liquidity =
  total_volume_today :: rat
  average_volume :: "rat option"
  high_volume_stocks :: nat
  low_volume_stocks :: nat
  total_turnover_today :: rat
  companies_with_turnover :: nat

record opportunities =
  value_opportunities :: "entry list option"
  growth_opportunities :: "entry list option"
  stable_opportunities :: "entry list option"

record report =
  summary :: summary
  market_overview :: "market_overview part"
  valuation_analysis :: "valuation part"
  risk_analysis :: "risk_profile part"
  performance_analysis :: "daily_performance part"
  liquidity_analysis :: "liquidity part"
  investment_opportunities :: "opportunities part"

datatype analysis_result = No_data | Report report

definition active :: "dataframe \<Rightarrow> dataframe" where
  \<comment> \<open>\<open>df[(df['last_traded_price'].notna()) & (df['last_traded_price'] > 0)]\<close>\<close>
  "active df =
     select (\<lambda>r. notna (cell Last_traded_price r) \<and> gt (cell Last_traded_price r) 0) df"

definition analyze_market_overview :: "dataframe \<Rightarrow> exn + market_overview part" where
  "analyze_market_overview df =
     (if rows df = [] then Inr Empty
      else case missing df [Market_cap, Last_traded_price] of
        Some e \<Rightarrow> Inl e
      | None \<Rightarrow>
          (let cap = col df Market_cap; price = col df Last_traded_price;
               q90 = quantile (9 / 10) cap; q30 = quantile (3 / 10) cap
           in Inr (Part
                \<lparr>total_market_capitalization = series_sum cap,
                 average_market_cap = series_mean cap,
                 median_market_cap = median cap,
                 large_cap = count (\<lambda>r. gt_stat (cell Market_cap r) q90) df,
                 mid_cap = count (\<lambda>r. gt_stat (cell Market_cap r) q30 \<and>
                                       le_stat (cell Market_cap r) q90) df,
                 small_cap = count (\<lambda>r. le_stat (cell Market_cap r) q30) df,
                 average_price = series_mean price,
                 median_price = median price,
                 highest_price = series_max price,
                 lowest_price = series_min price\<rparr>)))"

definition analyze_valuations :: "dataframe \<Rightarrow> exn + valuation part" where
  "analyze_valuations df =
     (if rows df = [] then Inr Empty
      else case missing df [Position_in_ytd_range] of
        Some e \<Rightarrow> Inl e
      | None \<Rightarrow>
          (let df_with_ytd = select (\<lambda>r. notna (cell Position_in_ytd_range r)) df;
               vol = (Ytd_volatility \<in> set (columns df))
           in if rows df_with_ytd = [] then Inr Empty
              else Inr (Part
                \<lparr>near_highs = count (\<lambda>r. gt (cell Position_in_ytd_range r) 80) df_with_ytd,
                 mid_range = count (\<lambda>r. ge (cell Position_in_ytd_range r) 20 \<and>
                                         le (cell Position_in_ytd_range r) 80) df_with_ytd,
                 near_lows = count (\<lambda>r. lt (cell Position_in_ytd_range r) 20) df_with_ytd,
                 average_position = series_mean (col df_with_ytd Position_in_ytd_range),
                 high_volatility =
                   (if vol then count (\<lambda>r. gt (cell Ytd_volatility r) 100) df else 0),
                 medium_volatility =
                   (if vol then count (\<lambda>r. ge (cell Ytd_volatility r) 50 \<and>
                                            le (cell Ytd_volatility r) 100) df else 0),
                 low_volatility =
                   (if vol then count (\<lambda>r. lt (cell Ytd_volatility r) 50) df else 0)\<rparr>)))"

definition analyze_risk_profile :: "dataframe \<Rightarrow> exn + risk_profile part" where
  "analyze_risk_profile df =
     (if rows df = [] then Inr Empty
      else case missing df [Tri_asi_beta] of
        Some e \<Rightarrow> Inl e
      | None \<Rightarrow>
          (let df_with_beta = select (\<lambda>r. notna (cell Tri_asi_beta r)) df;
               beta = col df_with_beta Tri_asi_beta
           in if rows df_with_beta = [] then Inr (Note ''No beta data available'')
              else Inr (Part
                \<lparr>high_risk = count (\<lambda>r. gt (cell Tri_asi_beta r) (3 / 2)) df_with_beta,
                 medium_risk = count (\<lambda>r. gt (cell Tri_asi_beta r) 1 \<and>
                                           le (cell Tri_asi_beta r) (3 / 2)) df_with_beta,
                 low_risk = count (\<lambda>r. gt (cell Tri_asi_beta r) (1 / 2) \<and>
                                        le (cell Tri_asi_beta r) 1) df_with_beta,
                 very_low_risk = count (\<lambda>r. le (cell Tri_asi_beta r) (1 / 2)) df_with_beta,
                 average_beta = series_mean beta,
                 median_beta = median beta,
                 highest_beta = series_max beta,
                 lowest_beta = series_min beta\<rparr>)))"

definition analyze_performance :: "dataframe \<Rightarrow> exn + daily_performance part" where
  "analyze_performance df =
     (if rows df = [] then Inr Empty
      else case missing df [Change_percentage] of
        Some e \<Rightarrow> Inl e
      | None \<Rightarrow>
          (let df_with_change = select (\<lambda>r. notna (cell Change_percentage r)) df;
               change = col df_with_change Change_percentage
           in Inr (Part
                \<lparr>gainers = count (\<lambda>r. gt (cell Change_percentage r) 0) df_with_change,
                 losers = count (\<lambda>r. lt (cell Change_percentage r) 0) df_with_change,
                 unchanged = count (\<lambda>r. eq (cell Change_percentage r) 0) df_with_change,
                 average_change = series_mean change,
                 best_performer = series_max change,
                 worst_performer = series_min change\<rparr>)))"

definition analyze_liquidity :: "dataframe \<Rightarrow> exn + liquidity part" where
  "analyze_liquidity df =
     (if rows df = [] then Inr Empty
      else case missing df [Today_volume] of
        Some e \<Rightarrow> Inl e
      | None \<Rightarrow>
          (let df_with_volume =
                 select (\<lambda>r. notna (cell Today_volume r) \<and> gt (cell Today_volume r) 0) df;
               volume = col df_with_volume Today_volume;
               turnover = (Today_turnover \<in> set (columns df_with_volume))
           in if rows df_with_volume = [] then Inr (Note ''No volume data available'')
              else Inr (Part
                \<lparr>total_volume_today = series_sum volume,
                 average_volume = series_mean volume,
                 high_volume_stocks =
                   count (\<lambda>r. gt_stat (cell Today_volume r) (quantile (8 / 10) volume))
                     df_with_volume,
                 low_volume_stocks =
                   count (\<lambda>r. lt_stat (cell Today_volume r) (quantile (2 / 10) volume))
                     df_with_volume,
                 total_turnover_today =
                   (if turnover then series_sum (col df_with_volume Today_turnover) else 0),
                 companies_with_turnover =
                   (if turnover
                    then count (\<lambda>r. notna (cell Today_turnover r) \<and>
                                     gt (cell Today_turnover r) 0) df_with_volume
                    else 0)\<rparr>)))"

definition value_columns :: "column list" where
  "value_columns = [Symbol, Name, Last_traded_price, Position_in_ytd_range, Market_cap]"

definition growth_columns :: "column list" where
  "growth_columns = [Symbol, Name, Last_traded_price, Change_percentage, Today_volume]"

definition stable_columns :: "column list" where
  "stable_columns = [Symbol, Name, Last_traded_price, Tri_asi_beta, Market_cap]"

definition value_frame :: "dataframe \<Rightarrow> dataframe" where
  \<comment> \<open>Lines 405 to 408: near the year-to-date low, closest first.\<close>
  "value_frame df =
     sort_values Position_in_ytd_range True
       (select (\<lambda>r. lt (cell Position_in_ytd_range r) 25)
          (select (\<lambda>r. notna (cell Position_in_ytd_range r)) df))"

definition growth_frame :: "dataframe \<Rightarrow> dataframe" where
  \<comment> \<open>Lines 415 to 417.\<close>
  "growth_frame df =
     sort_values Change_percentage False
       (select (\<lambda>r. gt (cell Change_percentage r) 5 \<and> notna (cell Today_volume r) \<and>
                     gt (cell Today_volume r) 0) df)"

definition stable_frame :: "dataframe \<Rightarrow> dataframe" where
  \<comment> \<open>Lines 424 to 426.\<close>
  "stable_frame df =
     sort_values Tri_asi_beta True
       (select (\<lambda>r. notna (cell Tri_asi_beta r) \<and> lt (cell Tri_asi_beta r) 1 \<and>
                     gt_stat (cell Market_cap r) (median (col df Market_cap))) df)"

definition identify_opportunities :: "dataframe \<Rightarrow> exn + opportunities part" where
  "identify_opportunities df =
     (if rows df = [] then Inr Empty
      else case missing df [Position_in_ytd_range] of
        Some e \<Rightarrow> Inl e
      | None \<Rightarrow>
          (let with_ytd = (rows (select (\<lambda>r. notna (cell Position_in_ytd_range r)) df) \<noteq> [])
           in case (if with_ytd then missing df value_columns else None) of
                Some e \<Rightarrow> Inl e
              | None \<Rightarrow>
                  (case missing df [Change_percentage, Today_volume] of
                     Some e \<Rightarrow> Inl e
                   | None \<Rightarrow>
                       (let growth = (rows (growth_frame df) \<noteq> [])
                        in case (if growth then missing df growth_columns else None) of
                             Some e \<Rightarrow> Inl e
                           | None \<Rightarrow>
                               (case missing df [Tri_asi_beta, Market_cap] of
                                  Some e \<Rightarrow> Inl e
                                | None \<Rightarrow>
                                    (let stable = (rows (stable_frame df) \<noteq> [])
                                     in case (if stable then missing df stable_columns
                                              else None) of
                                          Some e \<Rightarrow> Inl e
                                        | None \<Rightarrow>
                                            Inr (Part
                                              \<lparr>value_opportunities =
                                                 (if with_ytd
                                                  then Some (head_records value_columns 10
                                                               (value_frame df))
                                                  else None),
                                               growth_opportunities =
                                                 (if growth
                                                  then Some (head_records growth_columns 10
                                                               (growth_frame df))
                                                  else None),
                                               stable_opportunities =
                                                 (if stable
                                                  then Some (head_records stable_columns 10
                                                               (stable_frame df))
                                                  else None)\<rparr>)))))))"

definition analyses ::
  "dataframe \<Rightarrow>
   exn + (market_overview part \<times> valuation part \<times> risk_profile part \<times>
          daily_performance part \<times> liquidity part \<times> opportunities part)" where
  \<comment> \<open>The six sections, computed in the order of the dictionary literal of lines 268 to
      273; the first exception ends the call.\<close>
  "analyses df =
     (case analyze_market_overview df of
        Inl e \<Rightarrow> Inl e
      | Inr mo \<Rightarrow>
          (case analyze_valuations df of
             Inl e \<Rightarrow> Inl e
           | Inr va \<Rightarrow>
               (case analyze_risk_profile df of
                  Inl e \<Rightarrow> Inl e
                | Inr ri \<Rightarrow>
                    (case analyze_performance df of
                       Inl e \<Rightarrow> Inl e
                     | Inr pe \<Rightarrow>
                         (case analyze_liquidity df of
                            Inl e \<Rightarrow> Inl e
                          | Inr li \<Rightarrow>
                              (case identify_opportunities df of
                                 Inl e \<Rightarrow> Inl e
                               | Inr op \<Rightarrow> Inr (mo, va, ri, pe, li, op)))))))"

definition generate_investment_analysis ::
  "string \<Rightarrow> company_analysis list \<Rightarrow> exn + analysis_result" where
  \<comment> \<open>\<open>results\<close> is \<open>self.analysis_results\<close>; \<open>now\<close> is what
      \<open>datetime.now().strftime(...)\<close> returns during the call.\<close>
  "generate_investment_analysis now results =
     (if results = [] then Inr No_data
      else
        (let df = DataFrame results
         in case missing df [Last_traded_price] of
              Some e \<Rightarrow> Inl e
            | None \<Rightarrow>
                (let df_active = active df
                 in case analyses df_active of
                      Inl e \<Rightarrow> Inl e
                    | Inr (mo, va, ri, pe, li, op) \<Rightarrow>
                        Inr (Report
                          \<lparr>summary =
                             \<lparr>summary_total_companies = length (rows df),
                              summary_active_companies = length (rows df_active),
                              summary_inactive_companies =
                                int (length (rows df)) - int (length (rows df_active)),
                              analysis_date = now\<rparr>,
                           market_overview = mo,
                           valuation_analysis = va,
                           risk_analysis = ri,
                           performance_analysis = pe,
                           liquidity_analysis = li,
                           investment_opportunities = op\<rparr>))))"

definition redate :: "string \<Rightarrow> exn + analysis_result \<Rightarrow> exn + analysis_result" where
  \<comment> \<open>The result with the time stamp of its summary replaced.\<close>
  "redate d res =
     (case res of
        Inr (Report rep) \<Rightarrow> Inr (Report (rep\<lparr>summary := (summary rep)\<lparr>analysis_date := d\<rparr>\<rparr>))
      | _ \<Rightarrow> res)"

section \<open>A sample run\<close>

text \<open>
  Three companies and a service that answers the first and the third and fails on the
  second; used to run the loops on a concrete input. With \<open>sample_api\<close> the successful
  payloads carry a price and a change percentage; with \<open>no_change_pct_api\<close> they carry a price
  and no \<open>changePercentage\<close>.
\<close>

definition sample_body :: body where
  "sample_body =
     Body_Dict \<lparr>reqSymbolInfo = Obj (empty_symbol_info\<lparr>lastTradedPrice := Some 10,
                                                      changePercentage := Some 1\<rparr>),
                reqSymbolBetaInfo = Missing\<rparr>"

definition sample_api :: "string option \<Rightarrow> body response" where
  "sample_api s = (if s = Some ''BBB'' then Failure ''timeout'' None else Success 200 sample_body)"

definition sample_company :: "string \<Rightarrow> company" where
  "sample_company s = \<lparr>c_symbol = Some s, c_name = Obj s\<rparr>"

definition sample_analyzer :: analyzer where
  "sample_analyzer =
     \<lparr>company_data = [sample_company ''AAA'', sample_company ''BBB'', sample_company ''CCC''],
      analysis_results = [], failed_requests = [], events = []\<rparr>"

definition no_change_pct_body :: body where
  "no_change_pct_body =
     Body_Dict \<lparr>reqSymbolInfo = Obj (empty_symbol_info\<lparr>lastTradedPrice := Some 10\<rparr>),
                reqSymbolBetaInfo = Missing\<rparr>"

definition no_change_pct_api :: "string option \<Rightarrow> body response" where
  "no_change_pct_api s =
     (if s = Some ''BBB'' then Failure ''timeout'' None else Success 200 no_change_pct_body)"

text \<open>
  Roster services: one whose 26 requests all fail; one that lists two companies under
  \<open>A\<close> (the second never traded), one company as a bare list under \<open>B\<close>, \<open>null\<close> under \<open>C\<close>,
  and fails on the other letters; one whose list under \<open>A\<close> holds an element that is not a
  dictionary; and one that sends a number under the key for \<open>B\<close>.
\<close>

definition sample_roster_api :: "string \<Rightarrow> roster_body response" where
  "sample_roster_api l = Failure ''timeout'' None"

definition traded :: "string \<Rightarrow> roster_entry" where
  "traded s = Entry \<lparr>rc_symbol = Some s, rc_name = Some s, lastTradedTime = Some 1700000000\<rparr>"

definition untraded :: "string \<Rightarrow> roster_entry" where
  "untraded s = Entry \<lparr>rc_symbol = Some s, rc_name = Some s, lastTradedTime = None\<rparr>"

definition listed_roster_api :: "string \<Rightarrow> roster_body response" where
  "listed_roster_api l =
     (if l = ''A'' then Success 200 (Dict_reqAlphabetical (List_value [traded ''AAA'', untraded ''ABC'']))
      else if l = ''B'' then Success 200 (Bare_list [traded ''BBB''])
      else if l = ''C'' then Success 200 (Dict_reqAlphabetical Null_value)
      else Failure ''timeout'' None)"

definition malformed_roster_api :: "string \<Rightarrow> roster_body response" where
  "malformed_roster_api l =
     (if l = ''A'' then Success 200 (Dict_reqAlphabetical (List_value [traded ''AAA'', Not_a_dict]))
      else Failure ''timeout'' None)"

definition scalar_roster_api :: "string \<Rightarrow> roster_body response" where
  "scalar_roster_api l =
     (if l = ''B'' then Success 200 (Dict_reqAlphabetical (Number_value 5))
      else Failure ''timeout'' None)"

text \<open>
  Records for the aggregation: three active records with change percentages 5.2, -1.0
  and 0.0; and a collection of two active records, the first near its year-to-date low
  with a payload that has no market capitalisation, the second with every field present.
\<close>

definition performance_body :: "rat \<Rightarrow> body" where
  "performance_body c =
     Body_Dict \<lparr>reqSymbolInfo = Obj (empty_symbol_info\<lparr>lastTradedPrice := Some 10,
                                                      changePercentage := Some c\<rparr>),
                reqSymbolBetaInfo = Missing\<rparr>"

definition performance_sample :: "company_analysis list" where
  "performance_sample =
     [record_of (sample_company ''AAA'') (performance_body (26 / 5)),
      record_of (sample_company ''BBB'') (performance_body (- 1)),
      record_of (sample_company ''CCC'') (performance_body 0)]"

definition value_body :: body where
  "value_body =
     Body_Dict \<lparr>reqSymbolInfo =
                  Obj (empty_symbol_info\<lparr>si_symbol := Some ''AAA'', si_name := Some ''Alpha'',
                                          lastTradedPrice := Some 10,
                                          changePercentage := Some 1,
                                          ytdHiPrice := Some 100, ytdLowPrice := Some 5\<rparr>),
                reqSymbolBetaInfo = Missing\<rparr>"

definition full_body :: body where
  "full_body =
     Body_Dict \<lparr>reqSymbolInfo =
                  Obj (empty_symbol_info\<lparr>si_symbol := Some ''BBB'', si_name := Some ''Beta'',
                                          lastTradedPrice := Some 80, previousClose := Some 79,
                                          changePercentage := Some 1,
                                          ytdHiPrice := Some 100, ytdLowPrice := Some 50,
                                          p12HiPrice := Some 120, p12LowPrice := Some 40,
                                          marketCap := Some 1000, quantityIssued := Some 100,
                                          tdyShareVolume := Some 500, tdyTurnover := Some 40000,
                                          ytdShareVolume := Some 9000,
                                          ytdTurnover := Some 700000\<rparr>),
                reqSymbolBetaInfo =
                  Obj \<lparr>triASIBetaValue = Some (6 / 5), betaValueSPSL = Some (11 / 10)\<rparr>\<rparr>"

definition value_sample :: "company_analysis list" where
  "value_sample =
     [record_of (sample_company ''AAA'') value_body,
      record_of (sample_company ''BBB'') full_body]"

section \<open>Properties of the metric derivation\<close>

lemma risk_category_of_nonzero_beta:
  "triASIBetaValue b = Some x \<Longrightarrow> x \<noteq> 0 \<Longrightarrow>
   risk_category (calculate_investment_metrics s b) = Some (risk_of_beta x)"
  by (simp add: calculate_investment_metrics_def Let_def truthy_def num_def)

lemma risk_category_of_absent_beta:
  "triASIBetaValue b = None \<Longrightarrow> risk_category (calculate_investment_metrics s b) = None"
  by (simp add: calculate_investment_metrics_def Let_def truthy_def)

text \<open>
  C1. The claim gives every present beta a bucket, zero and negative values included, with
  \<open>beta \<le> 0.5\<close> in the lowest one. The guard \<open>if beta_asi:\<close> is false for a beta of exactly
  zero, so a snapshot whose beta is present and equal to \<open>0\<close> gets no \<open>risk_category\<close> at
  all, while a beta just below or above zero is put into \<open>Very Low Risk\<close>.
\<close>

theorem risk_category_missing_for_zero_beta:
  "risk_category (calculate_investment_metrics s (b\<lparr>triASIBetaValue := Some 0\<rparr>)) = None
   \<and> risk_category (calculate_investment_metrics s (b\<lparr>triASIBetaValue := Some (- 1 / 10)\<rparr>))
       = Some Very_Low_Risk
   \<and> risk_category (calculate_investment_metrics s (b\<lparr>triASIBetaValue := Some (1 / 10)\<rparr>))
       = Some Very_Low_Risk"
  by (simp add: calculate_investment_metrics_def Let_def truthy_def num_def risk_of_beta_def)

text \<open>
  C5. Whenever \<open>price_change_pct\<close> is present it equals
  \<open>(lastTradedPrice - previousClose) / previousClose * 100\<close> and \<open>previousClose\<close> is a
  number other than zero; for a snapshot whose \<open>previousClose\<close> is zero (or missing) the
  metric is absent. The function is total: no input makes it fail.
\<close>

theorem price_change_pct_formula_and_guard:
  "(price_change_pct (calculate_investment_metrics s b) = Some c \<longrightarrow>
      (\<exists>l p. lastTradedPrice s = Some l \<and> previousClose s = Some p \<and> p \<noteq> 0 \<and>
             c = (l - p) / p * 100))
   \<and> (previousClose s = Some 0 \<longrightarrow> price_change_pct (calculate_investment_metrics s b) = None)
   \<and> (previousClose s = None \<longrightarrow> price_change_pct (calculate_investment_metrics s b) = None)"
  by (auto simp: calculate_investment_metrics_def Let_def truthy_def num_def
           split: option.splits)

theorem price_change_pct_formula_and_guard_witness:
  "price_change_pct
     (calculate_investment_metrics
        (empty_symbol_info\<lparr>lastTradedPrice := Some 110, previousClose := Some 100\<rparr>)
        empty_beta_info) = Some 10
   \<and> (\<exists>l p. lastTradedPrice
               (empty_symbol_info\<lparr>lastTradedPrice := Some 110, previousClose := Some 100\<rparr>)
             = Some l
           \<and> previousClose
               (empty_symbol_info\<lparr>lastTradedPrice := Some 110, previousClose := Some 100\<rparr>)
             = Some p
           \<and> p \<noteq> 0 \<and> (10 :: rat) = (l - p) / p * 100)
   \<and> previousClose (empty_symbol_info\<lparr>lastTradedPrice := Some 110, previousClose := Some 0\<rparr>)
       = Some 0
   \<and> price_change_pct
       (calculate_investment_metrics
          (empty_symbol_info\<lparr>lastTradedPrice := Some 110, previousClose := Some 0\<rparr>)
          empty_beta_info) = None
   \<and> previousClose empty_symbol_info = None
   \<and> price_change_pct (calculate_investment_metrics empty_symbol_info empty_beta_info) = None"
proof -
  let ?s = "empty_symbol_info\<lparr>lastTradedPrice := Some 110, previousClose := Some 100\<rparr>"
  let ?z = "empty_symbol_info\<lparr>lastTradedPrice := Some 110, previousClose := Some 0\<rparr>"
  have present: "price_change_pct (calculate_investment_metrics ?s empty_beta_info) = Some 10"
    by (simp add: calculate_investment_metrics_def Let_def truthy_def num_def
                  empty_symbol_info_def)
  have zero: "previousClose ?z = Some 0"
    by simp
  have missing: "previousClose empty_symbol_info = None"
    by (simp add: empty_symbol_info_def)
  from price_change_pct_formula_and_guard [of ?s empty_beta_info 10] present
       price_change_pct_formula_and_guard [of ?z empty_beta_info] zero
       price_change_pct_formula_and_guard [of empty_symbol_info empty_beta_info] missing
  show ?thesis
    by blast
qed

text \<open>
  C6. A snapshot whose \<open>ytdHiPrice\<close> equals its \<open>ytdLowPrice\<close> has neither
  \<open>ytd_volatility\<close> nor \<open>position_in_ytd_range\<close>; and with a year-to-date high of 100, a low
  of 50 and a last price of 75 the position in the range is 50 and the volatility is 100,
  whatever the other fields hold.
\<close>

theorem ytd_metrics_degenerate_range_and_scenario:
  "(ytdHiPrice s = ytdLowPrice s \<longrightarrow>
      ytd_volatility (calculate_investment_metrics s b) = None \<and>
      position_in_ytd_range (calculate_investment_metrics s b) = None)
   \<and> position_in_ytd_range
       (calculate_investment_metrics
          (s\<lparr>ytdHiPrice := Some 100, ytdLowPrice := Some 50, lastTradedPrice := Some 75\<rparr>) b)
       = Some 50
   \<and> ytd_volatility
       (calculate_investment_metrics
          (s\<lparr>ytdHiPrice := Some 100, ytdLowPrice := Some 50, lastTradedPrice := Some 75\<rparr>) b)
       = Some 100"
  by (simp add: calculate_investment_metrics_def Let_def truthy_def num_def)

theorem ytd_metrics_degenerate_range_and_scenario_witness:
  "ytdHiPrice (empty_symbol_info\<lparr>ytdHiPrice := Some 80, ytdLowPrice := Some 80,
                                  lastTradedPrice := Some 80\<rparr>)
     = ytdLowPrice (empty_symbol_info\<lparr>ytdHiPrice := Some 80, ytdLowPrice := Some 80,
                                      lastTradedPrice := Some 80\<rparr>)
   \<and> ytd_volatility
       (calculate_investment_metrics
          (empty_symbol_info\<lparr>ytdHiPrice := Some 80, ytdLowPrice := Some 80,
                             lastTradedPrice := Some 80\<rparr>) empty_beta_info) = None
   \<and> position_in_ytd_range
       (calculate_investment_metrics
          (empty_symbol_info\<lparr>ytdHiPrice := Some 80, ytdLowPrice := Some 80,
                             lastTradedPrice := Some 80\<rparr>) empty_beta_info) = None"
proof -
  let ?s = "empty_symbol_info\<lparr>ytdHiPrice := Some 80, ytdLowPrice := Some 80,
                              lastTradedPrice := Some 80\<rparr>"
  have same: "ytdHiPrice ?s = ytdLowPrice ?s"
    by simp
  from ytd_metrics_degenerate_range_and_scenario [of ?s empty_beta_info] same
  show ?thesis
    by blast
qed

section \<open>Properties of the roster loop\<close>

lemma upper_ascii_uppercase: "l \<in> set ascii_uppercase \<Longrightarrow> upper l = l"
  by (auto simp: ascii_uppercase_def upper_def)

lemma roster_loop_run:
  "roster_loop api ls st = (st', x) \<Longrightarrow>
   \<exists>k\<le>length ls.
     roster_events st' = roster_events st @
       map (\<lambda>l. Request ''alphabetical'' (Some (upper l))) (take k ls) \<and>
     failed st' = failed st @ concat (map (letter_failures api) (take k ls)) \<and>
     (x = None \<longrightarrow> k = length ls) \<and>
     (\<forall>e. x = Some e \<longrightarrow> e = TypeError ''object is not iterable'')"
proof (induction ls arbitrary: st)
  case Nil
  then show ?case by simp
next
  case (Cons l ls)
  let ?st1 = "st\<lparr>roster_events := roster_events st @ [Request ''alphabetical'' (Some (upper l))]\<rparr>"
  have continue: ?case
    if run: "roster_loop api ls st2 = (st', x)"
      and ev: "roster_events st2 = roster_events st @ [Request ''alphabetical'' (Some (upper l))]"
      and fl: "failed st2 = failed st @ letter_failures api l"
    for st2
  proof -
    from Cons.IH [OF run] obtain k where k: "k \<le> length ls"
      "roster_events st' = roster_events st2 @
         map (\<lambda>l. Request ''alphabetical'' (Some (upper l))) (take k ls)"
      "failed st' = failed st2 @ concat (map (letter_failures api) (take k ls))"
      "x = None \<longrightarrow> k = length ls"
      "\<forall>e. x = Some e \<longrightarrow> e = TypeError ''object is not iterable''"
      by blast
    then show ?thesis
      using ev fl by (intro exI [of _ "Suc k"]) simp
  qed
  show ?case
  proof (cases "get_companies_by_alphabet api l")
    case (Failure e sc)
    with Cons.prems
    have "roster_loop api ls (?st1\<lparr>failed := failed ?st1 @ [\<lparr>letter = l, error = e\<rparr>]\<rparr>) = (st', x)"
      by (simp add: Let_def)
    then show ?thesis
      by (rule continue) (simp_all add: letter_failures_def Failure)
  next
    case (Success sc d)
    show ?thesis
    proof (cases "truthy_value (companies_of d)")
      case False
      with Cons.prems Success have "roster_loop api ls ?st1 = (st', x)"
        by (simp add: Let_def)
      then show ?thesis
        by (rule continue) (simp_all add: letter_failures_def Success)
    next
      case True
      show ?thesis
      proof (cases "items_of (companies_of d)")
        case (Inr cs)
        with Cons.prems Success True
        have "roster_loop api ls (?st1\<lparr>all_companies := all_companies ?st1 @ cs\<rparr>) = (st', x)"
          by (simp add: Let_def)
        then show ?thesis
          by (rule continue) (simp_all add: letter_failures_def Success)
      next
        case (Inl e)
        then have e: "e = TypeError ''object is not iterable''"
          by (auto simp: items_of_def split: roster_value.splits)
        from Cons.prems Success True Inl have "st' = ?st1" "x = Some e"
          by (simp_all add: Let_def)
        with e Success show ?thesis
          by (intro exI [of _ 1]) (simp add: letter_failures_def)
      qed
    qed
  qed
qed

lemma roster_loop_lists:
  "(\<forall>l\<in>set ls. (case get_companies_by_alphabet api l of
                   Failure _ _ \<Rightarrow> True
                 | Success _ d \<Rightarrow>
                     (\<exists>cs. companies_of d = List_value cs) \<or> \<not> truthy_value (companies_of d))) \<Longrightarrow>
   snd (roster_loop api ls st) = None \<and>
   all_companies (fst (roster_loop api ls st))
     = all_companies st @ concat (map (letter_companies api) ls) \<and>
   failed (fst (roster_loop api ls st))
     = failed st @ concat (map (letter_failures api) ls) \<and>
   roster_events (fst (roster_loop api ls st))
     = roster_events st @ map (\<lambda>l. Request ''alphabetical'' (Some (upper l))) ls"
proof (induction ls arbitrary: st)
  case Nil
  then show ?case by simp
next
  case (Cons l ls)
  from Cons.prems have rest: "\<forall>l\<in>set ls. case get_companies_by_alphabet api l of
                  Failure _ _ \<Rightarrow> True
                | Success _ d \<Rightarrow>
                    (\<exists>cs. companies_of d = List_value cs) \<or> \<not> truthy_value (companies_of d)"
    by simp
  note IH = Cons.IH [OF rest]
  show ?case
  proof (cases "get_companies_by_alphabet api l")
    case (Failure e sc)
    then show ?thesis
      by (simp add: Let_def IH letter_failures_def letter_companies_def)
  next
    case (Success sc d)
    with Cons.prems have d: "(\<exists>cs. companies_of d = List_value cs) \<or> \<not> truthy_value (companies_of d)"
      by simp
    show ?thesis
    proof (cases "truthy_value (companies_of d)")
      case True
      with d obtain cs where cs: "companies_of d = List_value cs"
        by blast
      with True Success show ?thesis
        by (simp add: Let_def IH letter_failures_def letter_companies_def items_of_def)
    next
      case False
      then have "(case companies_of d of List_value cs \<Rightarrow> cs | _ \<Rightarrow> []) = []"
        by (auto simp: truthy_value_def split: roster_value.splits)
      with False Success show ?thesis
        by (simp add: Let_def IH letter_failures_def letter_companies_def)
    qed
  qed
qed

lemma select_active_dicts: "list_all is_dict cs \<Longrightarrow> select_active cs = Inr (filter is_active cs)"
  by (induction cs rule: select_active.induct) (auto simp: is_dict_def is_active_def)

lemma select_active_not_TypeError: "select_active cs \<noteq> Inl (TypeError m)"
  by (induction cs rule: select_active.induct) (auto split: sum.splits)

lemma get_all_companies_events:
  "\<exists>k\<le>length ascii_uppercase.
     snd (get_all_companies rapi)
       = map (\<lambda>l. Request ''alphabetical'' (Some l)) (take k ascii_uppercase) \<and>
     ((\<forall>m. fst (get_all_companies rapi) \<noteq> Inl (TypeError m)) \<longrightarrow> k = length ascii_uppercase)"
proof -
  let ?st0 = "\<lparr>all_companies = [], failed = [], roster_events = []\<rparr>"
  obtain st' x where run: "roster_loop rapi ascii_uppercase ?st0 = (st', x)"
    by (cases "roster_loop rapi ascii_uppercase ?st0")
  from roster_loop_run [OF run] obtain k where k: "k \<le> length ascii_uppercase"
    "roster_events st' = map (\<lambda>l. Request ''alphabetical'' (Some (upper l))) (take k ascii_uppercase)"
    "x = None \<longrightarrow> k = length ascii_uppercase"
    "\<forall>e. x = Some e \<longrightarrow> e = TypeError ''object is not iterable''"
    by auto
  have "map (\<lambda>l. Request ''alphabetical'' (Some (upper l))) (take k ascii_uppercase)
        = map (\<lambda>l. Request ''alphabetical'' (Some l)) (take k ascii_uppercase)"
    by (rule map_cong) (auto dest: in_set_takeD simp: upper_ascii_uppercase)
  with k(2) have ev: "snd (get_all_companies rapi)
       = map (\<lambda>l. Request ''alphabetical'' (Some l)) (take k ascii_uppercase)"
    by (simp add: get_all_companies_def Let_def run split: option.splits sum.splits)
  have "k = length ascii_uppercase" if "\<forall>m. fst (get_all_companies rapi) \<noteq> Inl (TypeError m)"
  proof (cases x)
    case None
    with k(3) show ?thesis by simp
  next
    case (Some e)
    with k(4) have "fst (get_all_companies rapi) = Inl (TypeError ''object is not iterable'')"
      by (simp add: get_all_companies_def Let_def run)
    with that show ?thesis by simp
  qed
  with k(1) ev show ?thesis
    by blast
qed

lemma get_all_companies_lists:
  assumes "\<forall>l\<in>set ascii_uppercase. case api l of
                  Failure _ _ \<Rightarrow> True
                | Success _ d \<Rightarrow>
                    (\<exists>cs. companies_of d = List_value cs) \<or> \<not> truthy_value (companies_of d)"
  shows "get_all_companies api =
     ((case select_active (concat (map (letter_companies api) ascii_uppercase)) of
         Inl e \<Rightarrow> Inl e
       | Inr kept \<Rightarrow>
           Inr \<lparr>success = True,
                 total_companies = length (concat (map (letter_companies api) ascii_uppercase)),
                 active_companies = length kept,
                 data = (concat (map (letter_companies api) ascii_uppercase), kept),
                 roster_failed_requests = concat (map (letter_failures api) ascii_uppercase),
                 status_code = 200\<rparr>),
      map (\<lambda>l. Request ''alphabetical'' (Some l)) ascii_uppercase)"
proof -
  let ?st0 = "\<lparr>all_companies = [], failed = [], roster_events = []\<rparr>"
  from assms have "\<forall>l\<in>set ascii_uppercase. case get_companies_by_alphabet api l of
                  Failure _ _ \<Rightarrow> True
                | Success _ d \<Rightarrow>
                    (\<exists>cs. companies_of d = List_value cs) \<or> \<not> truthy_value (companies_of d)"
    by (simp add: get_companies_by_alphabet_def upper_ascii_uppercase)
  note loop = roster_loop_lists [OF this, of ?st0]
  have ev: "map (\<lambda>l. Request ''alphabetical'' (Some (upper l))) ascii_uppercase
        = map (\<lambda>l. Request ''alphabetical'' (Some l)) ascii_uppercase"
    by (rule map_cong) (auto simp: upper_ascii_uppercase)
  from loop show ?thesis
    by (simp add: get_all_companies_def Let_def ev split: sum.splits)
qed

lemma well_formed_lists:
  "well_formed r \<Longrightarrow>
   (case r of Failure _ _ \<Rightarrow> True
    | Success _ d \<Rightarrow> (\<exists>cs. companies_of d = List_value cs) \<or> \<not> truthy_value (companies_of d))"
  by (auto simp: well_formed_def split: response.splits roster_value.splits)

lemma well_formed_dicts:
  "well_formed (get_companies_by_alphabet api l) \<Longrightarrow> c \<in> set (letter_companies api l) \<Longrightarrow>
   is_dict c"
  by (auto simp: well_formed_def letter_companies_def list_all_iff
           split: response.splits roster_value.splits)

text \<open>
  When every response is a failure or a success whose \<open>companies\<close> is falsy or a list of
  dictionaries, \<open>get_all_companies\<close> returns, with \<open>success = True\<close> and \<open>status_code = 200\<close>,
  the companies of the successful letters in order, the failures only in
  \<open>failed_requests\<close>, and as the second list the entries of the first whose
  \<open>lastTradedTime\<close> is not \<open>None\<close>.
\<close>

lemma get_all_companies_well_formed:
  assumes "\<forall>l\<in>set ascii_uppercase. well_formed (api l)"
  shows "get_all_companies api =
     (Inr \<lparr>success = True,
           total_companies = length (concat (map (letter_companies api) ascii_uppercase)),
           active_companies =
             length (filter is_active (concat (map (letter_companies api) ascii_uppercase))),
           data = (concat (map (letter_companies api) ascii_uppercase),
                   filter is_active (concat (map (letter_companies api) ascii_uppercase))),
           roster_failed_requests = concat (map (letter_failures api) ascii_uppercase),
           status_code = 200\<rparr>,
      map (\<lambda>l. Request ''alphabetical'' (Some l)) ascii_uppercase)"
proof -
  from assms have "\<forall>l\<in>set ascii_uppercase. well_formed (get_companies_by_alphabet api l)"
    by (simp add: get_companies_by_alphabet_def upper_ascii_uppercase)
  then have "list_all is_dict (concat (map (letter_companies api) ascii_uppercase))"
    by (auto simp: list_all_iff dest: well_formed_dicts)
  then have "select_active (concat (map (letter_companies api) ascii_uppercase))
             = Inr (filter is_active (concat (map (letter_companies api) ascii_uppercase)))"
    by (rule select_active_dicts)
  moreover from assms have "\<forall>l\<in>set ascii_uppercase. case api l of
                  Failure _ _ \<Rightarrow> True
                | Success _ d \<Rightarrow>
                    (\<exists>cs. companies_of d = List_value cs) \<or> \<not> truthy_value (companies_of d)"
    by (auto dest: well_formed_lists)
  ultimately show ?thesis
    by (simp add: get_all_companies_lists)
qed

lemma letter_failures_ascii:
  "map (letter_failures api) ascii_uppercase
   = map (\<lambda>l. case api l of Success _ d \<Rightarrow> [] | Failure e _ \<Rightarrow> [\<lparr>letter = l, error = e\<rparr>])
       ascii_uppercase"
  by (rule map_cong)
     (simp_all add: letter_failures_def get_companies_by_alphabet_def upper_ascii_uppercase)

lemma letter_companies_ascii:
  "map (letter_companies api) ascii_uppercase
   = map (\<lambda>l. case api l of
                Success _ d \<Rightarrow> (case companies_of d of List_value cs \<Rightarrow> cs | _ \<Rightarrow> [])
              | Failure _ _ \<Rightarrow> [])
       ascii_uppercase"
  by (rule map_cong)
     (simp_all add: letter_companies_def get_companies_by_alphabet_def upper_ascii_uppercase)

text \<open>When every request fails the result reports success, no company and 26 failures.\<close>

lemma get_all_companies_every_request_fails:
  "get_all_companies (\<lambda>l. Failure e sc) =
     (Inr \<lparr>success = True, total_companies = 0, active_companies = 0, data = ([], []),
           roster_failed_requests = map (\<lambda>l. \<lparr>letter = l, error = e\<rparr>) ascii_uppercase,
           status_code = 200\<rparr>,
      map (\<lambda>l. Request ''alphabetical'' (Some l)) ascii_uppercase)"
proof -
  have "\<forall>l\<in>set ascii_uppercase. well_formed ((\<lambda>l. Failure e sc :: roster_body response) l)"
    by (simp add: well_formed_def)
  from get_all_companies_well_formed [OF this] show ?thesis
    by (simp add: letter_failures_ascii letter_companies_ascii)
qed

text \<open>A run in which three letters succeed and 23 fail.\<close>

lemma get_all_companies_listed:
  "fst (get_all_companies listed_roster_api) =
     Inr \<lparr>success = True, total_companies = 3, active_companies = 2,
          data = ([traded ''AAA'', untraded ''ABC'', traded ''BBB''],
                  [traded ''AAA'', traded ''BBB'']),
          roster_failed_requests =
            map (\<lambda>l. \<lparr>letter = l, error = ''timeout''\<rparr>) (drop 3 ascii_uppercase),
          status_code = 200\<rparr>"
proof -
  have "\<forall>l\<in>set ascii_uppercase. well_formed (listed_roster_api l)"
    by (simp add: well_formed_def listed_roster_api_def companies_of_def truthy_value_def
                  is_dict_def traded_def untraded_def)
  from get_all_companies_well_formed [OF this] show ?thesis
    by (simp add: letter_failures_ascii letter_companies_ascii)
       (simp add: ascii_uppercase_def listed_roster_api_def companies_of_def is_active_def
                  traded_def untraded_def)
qed

text \<open>A number under the key ends the loop at that letter with \<open>TypeError\<close>.\<close>

lemma get_all_companies_scalar:
  "get_all_companies scalar_roster_api =
     (Inl (TypeError ''object is not iterable''),
      [Request ''alphabetical'' (Some ''A''), Request ''alphabetical'' (Some ''B'')])"
  by (simp add: get_all_companies_def ascii_uppercase_def scalar_roster_api_def Let_def
                get_companies_by_alphabet_def upper_def companies_of_def truthy_value_def
                items_of_def)

text \<open>
  C10, on the code. \<open>get_all_companies\<close> does not return a result for every outcome of the
  26 requests. When the response for \<open>A\<close> succeeds and its list holds, besides a company, an
  element that is not a dictionary, and the other 25 requests fail, all 26 requests are
  made and line 170 then raises \<open>AttributeError\<close>: no dictionary is returned, so there is
  neither \<open>success = True\<close> nor \<open>status_code = 200\<close>.
\<close>

theorem roster_entry_that_is_not_a_dictionary_raises:
  "get_all_companies malformed_roster_api =
     (Inl (AttributeError ''object has no attribute get''),
      map (\<lambda>l. Request ''alphabetical'' (Some l)) ascii_uppercase)
   \<and> malformed_roster_api ''A''
       = Success 200 (Dict_reqAlphabetical (List_value [traded ''AAA'', Not_a_dict]))"
proof -
  have "\<forall>l\<in>set ascii_uppercase. case malformed_roster_api l of
                  Failure _ _ \<Rightarrow> True
                | Success _ d \<Rightarrow>
                    (\<exists>cs. companies_of d = List_value cs) \<or> \<not> truthy_value (companies_of d)"
    by (simp add: malformed_roster_api_def companies_of_def)
  note run = get_all_companies_lists [OF this]
  have "concat (map (letter_companies malformed_roster_api) ascii_uppercase)
        = [traded ''AAA'', Not_a_dict]"
    by (simp add: letter_companies_ascii)
       (simp add: ascii_uppercase_def malformed_roster_api_def companies_of_def)
  with run have "get_all_companies malformed_roster_api =
     (Inl (AttributeError ''object has no attribute get''),
      map (\<lambda>l. Request ''alphabetical'' (Some l)) ascii_uppercase)"
    by (simp add: traded_def)
  then show ?thesis
    by (simp add: malformed_roster_api_def)
qed

section \<open>Properties of the per-company loop\<close>

lemma analyze_loop_failure:
  "api (c_symbol c) = Failure e sc \<Longrightarrow>
   analyze_loop api delay n i (c # cs) st =
   analyze_loop api delay n (i + 1) cs
     (delay_step delay n i
        ((log_event (request_of c) st)
           \<lparr>failed_requests := failed_requests st @ [failure_of c e]\<rparr>))"
  by (simp add: get_company_summary_def Let_def request_of_def failure_of_def log_event_def)

lemma analyze_loop_success:
  "api (c_symbol c) = Success sc d \<Longrightarrow> display_ok (record_of c d) \<Longrightarrow>
   analyze_loop api delay n i (c # cs) st =
   analyze_loop api delay n (i + 1) cs
     (delay_step delay n i
        ((log_event (request_of c) st)
           \<lparr>analysis_results := analysis_results st @ [record_of c d]\<rparr>))"
  by (simp add: get_company_summary_def Let_def request_of_def record_of_def log_event_def)

lemma analyze_loop_display_error:
  "api (c_symbol c) = Success sc d \<Longrightarrow> \<not> display_ok (record_of c d) \<Longrightarrow>
   analyze_loop api delay n i (c # cs) st =
   ((log_event (request_of c) st)
      \<lparr>analysis_results := analysis_results st @ [record_of c d]\<rparr>,
    Some (TypeError ''unsupported format string passed to NoneType.__format__''))"
  by (simp add: get_company_summary_def Let_def request_of_def record_of_def log_event_def)

lemma failed_requests_delay_step [simp]:
  "failed_requests (delay_step delay n i st) = failed_requests st"
  by (simp add: delay_step_def log_event_def)

lemma analysis_results_delay_step [simp]:
  "analysis_results (delay_step delay n i st) = analysis_results st"
  by (simp add: delay_step_def log_event_def)

text \<open>
  What the loop leaves behind, whatever the service answers: the companies it got to are
  the first \<open>k\<close>; each of them whose fetch failed has one entry in \<open>failed_requests\<close>, with
  its symbol, its name and the error, in order; each whose fetch succeeded has one
  record; and the loop stops early only by the \<open>TypeError\<close> of line 227, on a successful
  fetch whose record has no change percentage. A failed fetch never ends it.
\<close>

lemma analyze_loop_run:
  "analyze_loop api delay n i cs st = (st', x) \<Longrightarrow>
   \<exists>k\<le>length cs.
     failed_requests st' = failed_requests st @ concat (map (fetch_failures api) (take k cs)) \<and>
     analysis_results st' = analysis_results st @ concat (map (fetch_records api) (take k cs)) \<and>
     (x = None \<longrightarrow> k = length cs) \<and>
     (x \<noteq> None \<longrightarrow>
        0 < k \<and> x = Some (TypeError ''unsupported format string passed to NoneType.__format__'') \<and>
        (\<exists>sc d. api (c_symbol (cs ! (k - 1))) = Success sc d \<and>
                \<not> display_ok (record_of (cs ! (k - 1)) d)))"
proof (induction cs arbitrary: i st)
  case Nil
  then show ?case by simp
next
  case (Cons c cs)
  have continue: ?case
    if run: "analyze_loop api delay n (i + 1) cs st1 = (st', x)"
      and f1: "failed_requests st1 = failed_requests st @ fetch_failures api c"
      and r1: "analysis_results st1 = analysis_results st @ fetch_records api c"
    for st1
  proof -
    from Cons.IH [OF run] obtain k where k: "k \<le> length cs"
      "failed_requests st' = failed_requests st1 @ concat (map (fetch_failures api) (take k cs))"
      "analysis_results st' = analysis_results st1 @ concat (map (fetch_records api) (take k cs))"
      "x = None \<longrightarrow> k = length cs"
      "x \<noteq> None \<longrightarrow>
        0 < k \<and> x = Some (TypeError ''unsupported format string passed to NoneType.__format__'') \<and>
        (\<exists>sc d. api (c_symbol (cs ! (k - 1))) = Success sc d \<and>
                \<not> display_ok (record_of (cs ! (k - 1)) d))"
      by blast
    from k(5) have "x \<noteq> None \<longrightarrow>
        x = Some (TypeError ''unsupported format string passed to NoneType.__format__'') \<and>
        (\<exists>sc d. api (c_symbol ((c # cs) ! (Suc k - 1))) = Success sc d \<and>
                \<not> display_ok (record_of ((c # cs) ! (Suc k - 1)) d))"
      by (cases k) auto
    with k(1-4) f1 r1 show ?thesis
      by (intro exI [of _ "Suc k"]) simp
  qed
  show ?case
  proof (cases "api (c_symbol c)")
    case (Failure e sc)
    show ?thesis
      by (rule continue
            [OF Cons.prems [unfolded analyze_loop_failure [where api = api and c = c, OF Failure]]])
         (simp_all add: log_event_def fetch_failures_def fetch_records_def Failure)
  next
    case (Success sc d)
    show ?thesis
    proof (cases "display_ok (record_of c d)")
      case True
      show ?thesis
        by (rule continue
              [OF Cons.prems
                  [unfolded analyze_loop_success [where api = api and c = c, OF Success True]]])
           (simp_all add: log_event_def fetch_failures_def fetch_records_def Success)
    next
      case False
      from Cons.prems
             [unfolded analyze_loop_display_error [where api = api and c = c, OF Success False]]
      have "failed_requests st' = failed_requests st"
        "analysis_results st' = analysis_results st @ [record_of c d]"
        "x = Some (TypeError ''unsupported format string passed to NoneType.__format__'')"
        by (auto simp: log_event_def)
      with Success False show ?thesis
        by (intro exI [of _ 1]) (simp add: fetch_failures_def fetch_records_def)
    qed
  qed
qed

text \<open>
  Three companies, the second fetch failing and the first and third succeeding with
  records that can be displayed: two new records, one failure entry for the second
  company, and the third company is requested.
\<close>

lemma second_of_three_fetches_fails:
  "company_data st0 = [c1, c2, c3] \<Longrightarrow>
   api (c_symbol c1) = Success s1 d1 \<Longrightarrow> display_ok (record_of c1 d1) \<Longrightarrow>
   api (c_symbol c2) = Failure e2 sc2 \<Longrightarrow>
   api (c_symbol c3) = Success s3 d3 \<Longrightarrow> display_ok (record_of c3 d3) \<Longrightarrow>
   \<exists>st'. analyze_companies api None delay st0 = (st', None) \<and>
         analysis_results st' = analysis_results st0 @ [record_of c1 d1, record_of c3 d3] \<and>
         failed_requests st' = failed_requests st0 @ [failure_of c2 e2] \<and>
         events st' = events st0 @
           [request_of c1, Sleep delay, request_of c2, Sleep delay, request_of c3]"
  by (simp add: analyze_companies_def companies_to_analyze_def analyze_loop_failure
                analyze_loop_success delay_step_def log_event_def
           del: analyze_loop.simps(2))

lemma sample_run:
  "\<exists>st'. analyze_companies sample_api None 1 sample_analyzer = (st', None) \<and>
         analysis_results st'
           = [record_of (sample_company ''AAA'') sample_body,
              record_of (sample_company ''CCC'') sample_body] \<and>
         failed_requests st'
           = [\<lparr>f_symbol = Some ''BBB'', f_name = Some ''BBB'', f_error = ''timeout''\<rparr>] \<and>
         events st'
           = [Request ''companyInfoSummery'' (Some ''AAA''), Sleep 1,
              Request ''companyInfoSummery'' (Some ''BBB''), Sleep 1,
              Request ''companyInfoSummery'' (Some ''CCC'')]"
proof -
  have d: "display_ok (record_of c sample_body)" for c
    by (simp add: display_ok_def record_of_def sample_body_def extract_comprehensive_data_def
                  get_or_def)
  have "\<exists>st'. analyze_companies sample_api None 1 sample_analyzer = (st', None) \<and>
         analysis_results st' = analysis_results sample_analyzer @
           [record_of (sample_company ''AAA'') sample_body,
            record_of (sample_company ''CCC'') sample_body] \<and>
         failed_requests st' = failed_requests sample_analyzer @
           [failure_of (sample_company ''BBB'') ''timeout''] \<and>
         events st' = events sample_analyzer @
           [request_of (sample_company ''AAA''), Sleep 1, request_of (sample_company ''BBB''),
            Sleep 1, request_of (sample_company ''CCC'')]"
    by (rule second_of_three_fetches_fails [where ?s1.0 = 200 and ?s3.0 = 200 and ?sc2.0 = None])
       (simp_all add: d sample_analyzer_def sample_api_def sample_company_def)
  then show ?thesis
    by (simp add: sample_analyzer_def failure_of_def request_of_def sample_company_def get_or_def)
qed

text \<open>A company whose \<open>name\<close> is \<open>null\<close> is recorded with the name \<open>None\<close>, not \<open>'Unknown'\<close>.\<close>

lemma failure_of_names:
  "f_name (failure_of \<lparr>c_symbol = s, c_name = Missing\<rparr> e) = Some ''Unknown''"
  "f_name (failure_of \<lparr>c_symbol = s, c_name = Null\<rparr> e) = None"
  "f_name (failure_of \<lparr>c_symbol = s, c_name = Obj n\<rparr> e) = Some n"
  by (simp_all add: failure_of_def get_or_def)

lemma spaced_Cons: "spaced s (x # xs) = x # (if xs = [] then [] else s # spaced s xs)"
  by (cases xs) auto

lemma analyze_loop_events:
  "i + length cs = n + 1 \<Longrightarrow> analyze_loop api delay n i cs st = (st', x) \<Longrightarrow>
   \<exists>k\<le>length cs.
     events st' = events st @ spaced (Sleep delay) (map request_of (take k cs)) \<and>
     (cs \<noteq> [] \<longrightarrow> 0 < k) \<and> (x = None \<longrightarrow> k = length cs)"
proof (induction cs arbitrary: i st)
  case Nil
  then show ?case by simp
next
  case (Cons c cs)
  from Cons.prems(1) have len: "(i + 1) + length cs = n + 1"
    by simp
  have sleep: "i < n \<longleftrightarrow> cs \<noteq> []"
    using Cons.prems(1) by (cases cs) auto
  have continue: "\<exists>k\<le>length (c # cs).
          events st' = events st @ spaced (Sleep delay) (map request_of (take k (c # cs))) \<and>
          (c # cs \<noteq> [] \<longrightarrow> 0 < k) \<and> (x = None \<longrightarrow> k = length (c # cs))"
    if run: "analyze_loop api delay n (i + 1) cs st1 = (st', x)"
      and ev1: "events st1 = events st @ request_of c # (if cs = [] then [] else [Sleep delay])"
    for st1
  proof -
    from Cons.IH [OF len run] obtain k where k: "k \<le> length cs"
      "events st' = events st1 @ spaced (Sleep delay) (map request_of (take k cs))"
      "cs \<noteq> [] \<longrightarrow> 0 < k" "x = None \<longrightarrow> k = length cs"
      by blast
    have "events st' = events st @ spaced (Sleep delay) (map request_of (take (Suc k) (c # cs)))"
      using k(2,3) ev1 by (cases "cs = []") (auto simp: spaced_Cons)
    then show ?thesis
      using k(1,4) by (intro exI [of _ "Suc k"]) simp
  qed
  show ?case
  proof (cases "api (c_symbol c)")
    case (Failure e sc)
    show ?thesis
      by (rule continue
            [OF Cons.prems(2) [unfolded analyze_loop_failure [where api = api and c = c, OF Failure]]])
         (simp add: delay_step_def log_event_def sleep)
  next
    case (Success sc d)
    show ?thesis
    proof (cases "display_ok (record_of c d)")
      case True
      show ?thesis
        by (rule continue
              [OF Cons.prems(2)
                  [unfolded analyze_loop_success [where api = api and c = c, OF Success True]]])
           (simp add: delay_step_def log_event_def sleep)
    next
      case False
      from Cons.prems(2)
             [unfolded analyze_loop_display_error [where api = api and c = c, OF Success False]]
      have "events st' = events st @ [request_of c]" "x \<noteq> None"
        by (auto simp: log_event_def)
      then show ?thesis
        by (intro exI [of _ 1]) auto
    qed
  qed
qed

text \<open>
  C7, on the code. The loop over three companies does not always end with two records and
  one failure entry when the second fetch fails and the first and third succeed. When
  the successful payloads carry a price and no \<open>changePercentage\<close>, the record of the first
  company is appended and line 227 then raises \<open>TypeError\<close>, formatting \<open>None\<close> with \<open>+.2f\<close>:
  the run ends with one record and no failure entry, and neither the second nor the third
  company is requested.
\<close>

theorem successful_fetch_without_change_percentage_ends_loop:
  "no_change_pct_api (c_symbol (sample_company ''AAA'')) = Success 200 no_change_pct_body
   \<and> no_change_pct_api (c_symbol (sample_company ''BBB'')) = Failure ''timeout'' None
   \<and> no_change_pct_api (c_symbol (sample_company ''CCC'')) = Success 200 no_change_pct_body
   \<and> analyze_companies no_change_pct_api None 1 sample_analyzer
     = (sample_analyzer
          \<lparr>analysis_results := [record_of (sample_company ''AAA'') no_change_pct_body],
           failed_requests := [],
           events := [Request ''companyInfoSummery'' (Some ''AAA'')]\<rparr>,
        Some (TypeError ''unsupported format string passed to NoneType.__format__''))"
proof -
  have a: "no_change_pct_api (c_symbol (sample_company ''AAA'')) = Success 200 no_change_pct_body"
    and b: "no_change_pct_api (c_symbol (sample_company ''BBB'')) = Failure ''timeout'' None"
    and c: "no_change_pct_api (c_symbol (sample_company ''CCC'')) = Success 200 no_change_pct_body"
    by (simp_all add: no_change_pct_api_def sample_company_def)
  have d: "\<not> display_ok (record_of (sample_company ''AAA'') no_change_pct_body)"
    by (simp add: display_ok_def record_of_def no_change_pct_body_def extract_comprehensive_data_def
                  get_or_def empty_symbol_info_def)
  note step = analyze_loop_display_error
                [where api = no_change_pct_api and c = "sample_company ''AAA''", OF a d]
  have cd: "company_data sample_analyzer
            = [sample_company ''AAA'', sample_company ''BBB'', sample_company ''CCC'']"
    by (simp add: sample_analyzer_def)
  have "analyze_companies no_change_pct_api None 1 sample_analyzer
     = ((log_event (request_of (sample_company ''AAA'')) sample_analyzer)
          \<lparr>analysis_results := analysis_results sample_analyzer @
               [record_of (sample_company ''AAA'') no_change_pct_body]\<rparr>,
        Some (TypeError ''unsupported format string passed to NoneType.__format__''))"
    by (simp add: analyze_companies_def companies_to_analyze_def cd step
             del: analyze_loop.simps(2))
  then have "analyze_companies no_change_pct_api None 1 sample_analyzer
     = (sample_analyzer
          \<lparr>analysis_results := [record_of (sample_company ''AAA'') no_change_pct_body],
           failed_requests := [],
           events := [Request ''companyInfoSummery'' (Some ''AAA'')]\<rparr>,
        Some (TypeError ''unsupported format string passed to NoneType.__format__''))"
    by (simp add: log_event_def request_of_def sample_analyzer_def sample_company_def)
  with a b c show ?thesis
    by blast
qed

text \<open>
  C8, on the code. The per-letter loop of \<open>get_all_companies\<close> has no delay step: its 26
  requests follow one another directly, so the first two events of a run are the requests
  for \<open>A\<close> and \<open>B\<close> with nothing between them.
\<close>

theorem roster_loop_has_no_delay:
  "take 2 (snd (get_all_companies sample_roster_api))
   = [Request ''alphabetical'' (Some ''A''), Request ''alphabetical'' (Some ''B'')]"
proof -
  have eq: "sample_roster_api = (\<lambda>l. Failure ''timeout'' None)"
    by (simp add: sample_roster_api_def fun_eq_iff)
  show ?thesis
    unfolding eq by (simp add: get_all_companies_every_request_fails ascii_uppercase_def)
qed

text \<open>
  C8, amended. The per-company loop \<open>analyze_companies\<close> sleeps for the fixed delay between
  every two consecutive requests, whether the earlier one succeeded or failed: whatever
  the service answers, the events it adds are the requests of the first \<open>k\<close> companies with
  one \<open>Sleep delay\<close> between neighbours, and all companies are requested when no exception
  ends the run. The per-letter loop of \<open>get_all_companies\<close> issues its requests with no
  delay at all: its events are the requests of the first \<open>k\<close> letters and nothing else, all
  26 of them unless a \<open>TypeError\<close> ends the loop.
\<close>

theorem delay_between_company_requests_only:
  "(analyze_companies api limit delay st = (st', x) \<longrightarrow>
      (\<exists>k\<le>length (companies_to_analyze limit st).
         events st' = events st @
           spaced (Sleep delay) (map request_of (take k (companies_to_analyze limit st))) \<and>
         (x = None \<longrightarrow> k = length (companies_to_analyze limit st))))
   \<and> (\<exists>k\<le>length ascii_uppercase.
         snd (get_all_companies rapi)
           = map (\<lambda>l. Request ''alphabetical'' (Some l)) (take k ascii_uppercase) \<and>
         ((\<forall>m. fst (get_all_companies rapi) \<noteq> Inl (TypeError m)) \<longrightarrow>
            k = length ascii_uppercase))"
proof (intro conjI impI)
  assume run: "analyze_companies api limit delay st = (st', x)"
  let ?cs = "companies_to_analyze limit st"
  show "\<exists>k\<le>length ?cs.
         events st' = events st @ spaced (Sleep delay) (map request_of (take k ?cs)) \<and>
         (x = None \<longrightarrow> k = length ?cs)"
  proof (cases "company_data st = []")
    case True
    then have "?cs = []"
      by (simp add: companies_to_analyze_def slice_to_def split: option.splits)
    moreover from True run have "st' = st"
      by (simp add: analyze_companies_def)
    ultimately show ?thesis
      by simp
  next
    case False
    with run have "analyze_loop api delay (length ?cs) 1 ?cs st = (st', x)"
      by (simp add: analyze_companies_def Let_def)
    from analyze_loop_events [OF _ this] show ?thesis
      by auto
  qed
next
  show "\<exists>k\<le>length ascii_uppercase.
         snd (get_all_companies rapi)
           = map (\<lambda>l. Request ''alphabetical'' (Some l)) (take k ascii_uppercase) \<and>
         ((\<forall>m. fst (get_all_companies rapi) \<noteq> Inl (TypeError m)) \<longrightarrow>
            k = length ascii_uppercase)"
    by (rule get_all_companies_events)
qed

theorem delay_between_company_requests_only_witness:
  "analyze_companies sample_api None 1 sample_analyzer
     = (fst (analyze_companies sample_api None 1 sample_analyzer),
        snd (analyze_companies sample_api None 1 sample_analyzer))
   \<and> (\<exists>k\<le>length (companies_to_analyze None sample_analyzer).
         events (fst (analyze_companies sample_api None 1 sample_analyzer))
           = events sample_analyzer @
               spaced (Sleep 1)
                 (map request_of (take k (companies_to_analyze None sample_analyzer))))
   \<and> events (fst (analyze_companies sample_api None 1 sample_analyzer))
       = [Request ''companyInfoSummery'' (Some ''AAA''), Sleep 1,
          Request ''companyInfoSummery'' (Some ''BBB''), Sleep 1,
          Request ''companyInfoSummery'' (Some ''CCC'')]
   \<and> (\<exists>r. fst (get_all_companies sample_roster_api) = Inr r)
   \<and> snd (get_all_companies sample_roster_api)
       = map (\<lambda>l. Request ''alphabetical'' (Some l)) ascii_uppercase"
proof -
  let ?r = "analyze_companies sample_api None 1 sample_analyzer"
  have run: "?r = (fst ?r, snd ?r)"
    by simp
  note inst = delay_between_company_requests_only
         [of sample_api None 1 sample_analyzer "fst ?r" "snd ?r" sample_roster_api]
  from inst run
  have shape: "\<exists>k\<le>length (companies_to_analyze None sample_analyzer).
         events (fst ?r) = events sample_analyzer @
           spaced (Sleep 1) (map request_of (take k (companies_to_analyze None sample_analyzer)))"
    by blast
  from sample_run have ev: "events (fst ?r)
       = [Request ''companyInfoSummery'' (Some ''AAA''), Sleep 1,
          Request ''companyInfoSummery'' (Some ''BBB''), Sleep 1,
          Request ''companyInfoSummery'' (Some ''CCC'')]"
    by auto
  have eq: "sample_roster_api = (\<lambda>l. Failure ''timeout'' None)"
    by (simp add: sample_roster_api_def fun_eq_iff)
  have ret: "\<exists>r. fst (get_all_companies sample_roster_api) = Inr r"
    unfolding eq by (simp add: get_all_companies_every_request_fails)
  then have "\<forall>m. fst (get_all_companies sample_roster_api) \<noteq> Inl (TypeError m)"
    by auto
  with inst have roster: "snd (get_all_companies sample_roster_api)
       = map (\<lambda>l. Request ''alphabetical'' (Some l)) ascii_uppercase"
    by auto
  from run shape ev ret roster show ?thesis
    by blast
qed

section \<open>Properties of the aggregation\<close>

lemma rows_select [simp]: "rows (select p df) = filter p (rows df)"
  by (simp add: select_def)

lemma columns_select [simp]: "columns (select p df) = columns df"
  by (simp add: select_def)

lemma set_rows_sort_values: "set (rows (sort_values c a df)) = set (rows df)"
  by (auto simp: sort_values_def Let_def)

lemma in_head_records:
  "e \<in> set (head_records cs n df) \<Longrightarrow> \<exists>r\<in>set (rows df). e = to_dict cs r"
  by (auto simp: head_records_def dest: in_set_takeD)

lemma to_dict_lookup: "c \<in> set cs \<Longrightarrow> map_of (to_dict cs r) c = Some (cell c r)"
  by (induction cs) (auto simp: to_dict_def)

lemma to_dict_keys: "map fst (to_dict cs r) = cs"
  by (simp add: to_dict_def comp_def)

lemma in_active:
  "r \<in> set (rows (active df)) \<longleftrightarrow>
   r \<in> set (rows df) \<and> (\<exists>p. cell Last_traded_price r = Num p \<and> 0 < p)"
  by (auto simp: active_def gt_def notna_def split: cell.splits)

lemma in_value_frame:
  "r \<in> set (rows (value_frame df)) \<Longrightarrow>
   r \<in> set (rows df) \<and> (\<exists>v. cell Position_in_ytd_range r = Num v \<and> v < 25)"
  by (auto simp: value_frame_def set_rows_sort_values lt_def split: cell.splits)

lemma in_growth_frame:
  "r \<in> set (rows (growth_frame df)) \<Longrightarrow>
   r \<in> set (rows df) \<and>
   (\<exists>c v. cell Change_percentage r = Num c \<and> 5 < c \<and> cell Today_volume r = Num v \<and> 0 < v)"
  by (auto simp: growth_frame_def set_rows_sort_values gt_def split: cell.splits)

lemma in_stable_frame:
  "r \<in> set (rows (stable_frame df)) \<Longrightarrow>
   r \<in> set (rows df) \<and>
   (\<exists>b m. cell Tri_asi_beta r = Num b \<and> b < 1 \<and> cell Market_cap r = Num m)"
  by (auto simp: stable_frame_def set_rows_sort_values gt_def lt_def gt_stat_def
           split: cell.splits option.splits)

lemma identify_opportunities_lists:
  assumes "identify_opportunities df = Inr (Part opp)"
  shows "value_opportunities opp = Some es \<longrightarrow>
           es = head_records value_columns 10 (value_frame df)"
    and "growth_opportunities opp = Some es \<longrightarrow>
           es = head_records growth_columns 10 (growth_frame df)"
    and "stable_opportunities opp = Some es \<longrightarrow>
           es = head_records stable_columns 10 (stable_frame df)"
  using assms
  by (auto simp: identify_opportunities_def Let_def split: if_splits option.splits)

lemma generate_report:
  assumes "generate_investment_analysis now rs = Inr (Report rep)"
  shows "analyses (active (DataFrame rs)) =
           Inr (market_overview rep, valuation_analysis rep, risk_analysis rep,
                performance_analysis rep, liquidity_analysis rep, investment_opportunities rep)"
    and "analysis_date (summary rep) = now"
  using assms
  by (auto simp: generate_investment_analysis_def Let_def
           split: if_splits option.splits sum.splits prod.splits)

lemma analyses_opportunities:
  "analyses df = Inr (mo, va, ri, pe, li, op) \<Longrightarrow> identify_opportunities df = Inr op"
  by (auto simp: analyses_def split: sum.splits)

lemma report_opportunities:
  "generate_investment_analysis now rs = Inr (Report rep) \<Longrightarrow>
   identify_opportunities (active (DataFrame rs)) = Inr (investment_opportunities rep)"
  using generate_report(1) analyses_opportunities by metis

lemma missing_None: "set cs \<subseteq> set (columns df) \<Longrightarrow> missing df cs = None"
proof -
  assume "set cs \<subseteq> set (columns df)"
  then have "filter (\<lambda>c. c \<notin> set (columns df)) cs = []"
    by (auto simp: filter_empty_conv)
  then show ?thesis
    by (simp add: missing_def)
qed

text \<open>When the frame has every column, each of the six sections is computed.\<close>

lemma analyses_total:
  assumes "set all_columns \<subseteq> set (columns df)"
  shows "\<exists>mo va ri pe li op. analyses df = Inr (mo, va, ri, pe, li, op)"
proof -
  have m: "missing df cs = None" if "set cs \<subseteq> set all_columns" for cs
    using that assms by (intro missing_None) blast
  have 1: "\<exists>x. analyze_market_overview df = Inr x"
    by (simp add: analyze_market_overview_def Let_def m all_columns_def)
  have 2: "\<exists>x. analyze_valuations df = Inr x"
    by (simp add: analyze_valuations_def Let_def m all_columns_def)
  have 3: "\<exists>x. analyze_risk_profile df = Inr x"
    by (simp add: analyze_risk_profile_def Let_def m all_columns_def)
  have 4: "\<exists>x. analyze_performance df = Inr x"
    by (simp add: analyze_performance_def Let_def m all_columns_def)
  have 5: "\<exists>x. analyze_liquidity df = Inr x"
    by (simp add: analyze_liquidity_def Let_def m all_columns_def)
  have 6: "\<exists>x. identify_opportunities df = Inr x"
    by (simp add: identify_opportunities_def Let_def m all_columns_def value_columns_def
                  growth_columns_def stable_columns_def)
  from 1 2 3 4 5 6 show ?thesis
    by (auto simp: analyses_def)
qed

subsection \<open>The sample records\<close>

lemmas frame_defs =
  DataFrame_def all_columns_def has_key_def cell_def active_def select_def notna_def gt_def
  lt_def eq_def ge_def le_def of_num_def of_str_def missing_def col_def count_def

lemmas sample_defs =
  record_of_def extract_comprehensive_data_def get_or_def empty_symbol_info_def
  empty_beta_info_def calculate_investment_metrics_def truthy_def num_def

lemma performance_sample_performance:
  "analyze_performance (active (DataFrame performance_sample))
   = Inr (Part \<lparr>gainers = 1, losers = 1, unchanged = 1, average_change = Some (7 / 5),
                best_performer = Some (26 / 5), worst_performer = Some (- 1)\<rparr>)"
  by (simp add: performance_sample_def performance_body_def sample_defs
                analyze_performance_def frame_defs series_mean_def series_max_def
                series_min_def Let_def)

lemma performance_sample_cells:
  "map (cell Change_percentage) performance_sample = [Num (26 / 5), Num (- 1), Num 0]"
  "map (cell Last_traded_price) performance_sample = [Num 10, Num 10, Num 10]"
  by (simp_all add: performance_sample_def performance_body_def sample_defs cell_def of_num_def)

lemma value_sample_opportunities:
  "identify_opportunities (active (DataFrame value_sample)) =
    Inr (Part \<lparr>value_opportunities =
                 Some [[(Symbol, Str ''AAA''), (Name, Str ''Alpha''), (Last_traded_price, Num 10),
                        (Position_in_ytd_range, Num (100 / 19)), (Market_cap, NaN)]],
               growth_opportunities = None, stable_opportunities = None\<rparr>)"
  by (simp add: value_sample_def value_body_def full_body_def sample_defs identify_opportunities_def
                frame_defs Let_def value_frame_def growth_frame_def stable_frame_def
                sort_values_def key_of_def head_records_def to_dict_def value_columns_def
                growth_columns_def stable_columns_def gt_stat_def median_def)

lemma columns_value_sample: "columns (DataFrame value_sample) = all_columns"
  by (simp add: value_sample_def value_body_def full_body_def sample_defs DataFrame_def all_columns_def
                has_key_def of_num_def Let_def)

lemma value_sample_active: "rows (active (DataFrame value_sample)) = value_sample"
  by (simp add: value_sample_def value_body_def full_body_def sample_defs frame_defs)

lemma generate_value_sample:
  "\<exists>rep. generate_investment_analysis t value_sample = Inr (Report rep) \<and>
         analysis_date (summary rep) = t \<and>
         investment_opportunities rep =
           Part \<lparr>value_opportunities =
                   Some [[(Symbol, Str ''AAA''), (Name, Str ''Alpha''),
                          (Last_traded_price, Num 10),
                          (Position_in_ytd_range, Num (100 / 19)), (Market_cap, NaN)]],
                 growth_opportunities = None, stable_opportunities = None\<rparr>"
proof -
  let ?df = "active (DataFrame value_sample)"
  have "set all_columns \<subseteq> set (columns ?df)"
    by (simp add: active_def columns_value_sample)
  from analyses_total [OF this] obtain mo va ri pe li op
    where a: "analyses ?df = Inr (mo, va, ri, pe, li, op)"
    by blast
  from analyses_opportunities [OF a] value_sample_opportunities
  have op: "op = Part \<lparr>value_opportunities =
                   Some [[(Symbol, Str ''AAA''), (Name, Str ''Alpha''),
                          (Last_traded_price, Num 10),
                          (Position_in_ytd_range, Num (100 / 19)), (Market_cap, NaN)]],
                 growth_opportunities = None, stable_opportunities = None\<rparr>"
    by simp
  have ne: "value_sample \<noteq> []"
    by (simp add: value_sample_def)
  have m: "missing (DataFrame value_sample) [Last_traded_price] = None"
    by (rule missing_None) (simp add: columns_value_sample all_columns_def)
  show ?thesis
    using a op by (simp add: generate_investment_analysis_def Let_def ne m)
qed

subsection \<open>The claims\<close>

text \<open>
  C2, on the code. For the three sample records, whose change percentages are 5.2, -1.0
  and 0.0 and whose last price is 10, the performance analysis counts one gainer, one
  loser and one unchanged record, and the average change is \<open>(5.2 - 1.0 + 0.0) / 3 = 1.4\<close>,
  which is not 1.4667: the two differ by more than 0.05.
\<close>

theorem performance_average_is_not_1_4667:
  "analyze_performance (active (DataFrame performance_sample))
   = Inr (Part \<lparr>gainers = 1, losers = 1, unchanged = 1, average_change = Some (7 / 5),
                best_performer = Some (26 / 5), worst_performer = Some (- 1)\<rparr>)
   \<and> 1 / 20 < \<bar>(7 / 5 :: rat) - 14667 / 10000\<bar>"
  by (simp add: performance_sample_performance)

text \<open>
  C2, amended. For every collection of exactly three records whose change percentages
  are 5.2, -1.0 and 0.0, all with a present, positive last price, the performance
  analysis reports one gainer, one loser, one unchanged record and an average change of
  1.4 (best 5.2, worst -1.0).
\<close>

theorem performance_scenario:
  "map (cell Change_percentage) rs = [Num (26 / 5), Num (- 1), Num 0] \<and>
   (\<forall>r\<in>set rs. \<exists>p. cell Last_traded_price r = Num p \<and> 0 < p) \<longrightarrow>
   analyze_performance (active (DataFrame rs))
   = Inr (Part \<lparr>gainers = 1, losers = 1, unchanged = 1, average_change = Some (7 / 5),
                best_performer = Some (26 / 5), worst_performer = Some (- 1)\<rparr>)"
proof
  assume a: "map (cell Change_percentage) rs = [Num (26 / 5), Num (- 1), Num 0] \<and>
   (\<forall>r\<in>set rs. \<exists>p. cell Last_traded_price r = Num p \<and> 0 < p)"
  then have act: "rows (active (DataFrame rs)) = rs"
    by (auto simp: active_def DataFrame_def gt_def notna_def filter_id_conv)
  from a obtain r1 r2 r3 where rs: "rs = [r1, r2, r3]"
    by (auto simp: map_eq_Cons_conv)
  from a rs have "has_key Change_percentage r1"
    by (auto simp: has_key_def cell_def split: option.splits)
  then have "Change_percentage \<in> set (columns (active (DataFrame rs)))"
    by (simp add: active_def DataFrame_def all_columns_def rs)
  then have m: "missing (active (DataFrame rs)) [Change_percentage] = None"
    by (intro missing_None) simp
  have cells: "cell Change_percentage r1 = Num (26 / 5)" "cell Change_percentage r2 = Num (- 1)"
    "cell Change_percentage r3 = Num 0"
    using a rs by auto
  show "analyze_performance (active (DataFrame rs))
   = Inr (Part \<lparr>gainers = 1, losers = 1, unchanged = 1, average_change = Some (7 / 5),
                best_performer = Some (26 / 5), worst_performer = Some (- 1)\<rparr>)"
    using act m cells
    by (simp add: analyze_performance_def Let_def rs count_def col_def notna_def gt_def lt_def
                  eq_def series_mean_def series_max_def series_min_def)
qed

theorem performance_scenario_witness:
  "map (cell Change_percentage) performance_sample = [Num (26 / 5), Num (- 1), Num 0]
   \<and> map (cell Last_traded_price) performance_sample = [Num 10, Num 10, Num 10]
   \<and> analyze_performance (active (DataFrame performance_sample))
     = Inr (Part \<lparr>gainers = 1, losers = 1, unchanged = 1, average_change = Some (7 / 5),
                  best_performer = Some (26 / 5), worst_performer = Some (- 1)\<rparr>)"
proof -
  have pos: "\<forall>r\<in>set performance_sample. \<exists>p. cell Last_traded_price r = Num p \<and> 0 < p"
  proof
    fix r
    assume "r \<in> set performance_sample"
    then have "cell Last_traded_price r \<in> set (map (cell Last_traded_price) performance_sample)"
      by simp
    then have "cell Last_traded_price r = Num 10"
      unfolding performance_sample_cells(2) by simp
    then show "\<exists>p. cell Last_traded_price r = Num p \<and> 0 < p"
      by simp
  qed
  from performance_scenario [of performance_sample] performance_sample_cells(1) pos
  have "analyze_performance (active (DataFrame performance_sample))
     = Inr (Part \<lparr>gainers = 1, losers = 1, unchanged = 1, average_change = Some (7 / 5),
                  best_performer = Some (26 / 5), worst_performer = Some (- 1)\<rparr>)"
    by blast
  with performance_sample_cells show ?thesis
    by blast
qed

text \<open>
  C3, on the code. The summary of the report holds \<open>analysis_date\<close>, the clock's time
  during the call, so two calls on the same records one second apart return different
  reports.
\<close>

theorem report_differs_between_calls:
  "generate_investment_analysis ''2024-01-01 10:00:00'' value_sample
   \<noteq> generate_investment_analysis ''2024-01-01 10:00:01'' value_sample"
proof
  assume eq: "generate_investment_analysis ''2024-01-01 10:00:00'' value_sample
   = generate_investment_analysis ''2024-01-01 10:00:01'' value_sample"
  from generate_value_sample [of "''2024-01-01 10:00:00''"] obtain r1 where
    r1: "generate_investment_analysis ''2024-01-01 10:00:00'' value_sample = Inr (Report r1)"
        "analysis_date (summary r1) = ''2024-01-01 10:00:00''"
    by blast
  from generate_value_sample [of "''2024-01-01 10:00:01''"] obtain r2 where
    r2: "generate_investment_analysis ''2024-01-01 10:00:01'' value_sample = Inr (Report r2)"
        "analysis_date (summary r2) = ''2024-01-01 10:00:01''"
    by blast
  from eq r1(1) r2(1) have "r1 = r2"
    by simp
  with r1(2) r2(2) show False
    by simp
qed

text \<open>
  C3, amended. Apart from the time stamp \<open>analysis_date\<close>, which is the clock's time during
  the call, the result is a function of the record collection alone: two calls on the
  same collection agree on everything else (also on the exception, when one is raised),
  and the six sections of a report are the ones computed from the active subset of the
  collection.
\<close>

theorem report_is_function_of_records_and_clock:
  "redate d (generate_investment_analysis t1 rs) = redate d (generate_investment_analysis t2 rs)
   \<and> (generate_investment_analysis t1 rs = Inr (Report rep) \<longrightarrow>
        analysis_date (summary rep) = t1 \<and>
        analyses (active (DataFrame rs)) =
          Inr (market_overview rep, valuation_analysis rep, risk_analysis rep,
               performance_analysis rep, liquidity_analysis rep,
               investment_opportunities rep))"
proof (intro conjI impI)
  show "redate d (generate_investment_analysis t1 rs)
        = redate d (generate_investment_analysis t2 rs)"
    by (simp add: generate_investment_analysis_def redate_def Let_def
             split: option.splits sum.splits prod.splits)
qed (simp_all add: generate_report)

theorem report_is_function_of_records_and_clock_witness:
  "\<exists>rep. generate_investment_analysis ''2024-01-01 10:00:00'' value_sample = Inr (Report rep) \<and>
         analysis_date (summary rep) = ''2024-01-01 10:00:00'' \<and>
         analyses (active (DataFrame value_sample)) =
           Inr (market_overview rep, valuation_analysis rep, risk_analysis rep,
                performance_analysis rep, liquidity_analysis rep,
                investment_opportunities rep)"
proof -
  from generate_value_sample [of "''2024-01-01 10:00:00''"] obtain rep where
    rep: "generate_investment_analysis ''2024-01-01 10:00:00'' value_sample = Inr (Report rep)"
    by blast
  from report_is_function_of_records_and_clock
         [where ?t1.0 = "''2024-01-01 10:00:00''" and rs = value_sample and rep = rep] rep
  show ?thesis
    by blast
qed

text \<open>
  C4, on the code. The value list reports \<open>market_cap\<close> but does not filter on it: the
  sample record, which is active and near its year-to-date low and has no market
  capitalisation, is ranked with a missing \<open>market_cap\<close>.
\<close>

theorem value_opportunity_with_missing_market_cap:
  "identify_opportunities (active (DataFrame value_sample)) =
    Inr (Part \<lparr>value_opportunities =
                 Some [[(Symbol, Str ''AAA''), (Name, Str ''Alpha''), (Last_traded_price, Num 10),
                        (Position_in_ytd_range, Num (100 / 19)), (Market_cap, NaN)]],
               growth_opportunities = None, stable_opportunities = None\<rparr>)"
  by (rule value_sample_opportunities)

text \<open>
  C4, amended. Every entry of an opportunity list has present values in the fields its
  list filters and sorts on: a value entry has a positive last price and a position in
  the year-to-date range below 25; a growth entry has a positive last price, a change
  percentage above 5 and a positive volume; a stable entry has a positive last price, a
  beta below 1 and a market capitalisation. The other reported fields (\<open>symbol\<close>, \<open>name\<close>,
  and \<open>market_cap\<close> in the value list) are copied as they are and may be missing.
\<close>

theorem opportunity_entries_have_their_filter_fields:
  "generate_investment_analysis now rs = Inr (Report rep) \<and>
   investment_opportunities rep = Part opp \<and> e \<in> set es \<longrightarrow>
   (value_opportunities opp = Some es \<longrightarrow>
      map fst e = value_columns \<and>
      (\<exists>p v. map_of e Last_traded_price = Some (Num p) \<and> 0 < p \<and>
             map_of e Position_in_ytd_range = Some (Num v) \<and> v < 25))
   \<and> (growth_opportunities opp = Some es \<longrightarrow>
      map fst e = growth_columns \<and>
      (\<exists>p c v. map_of e Last_traded_price = Some (Num p) \<and> 0 < p \<and>
               map_of e Change_percentage = Some (Num c) \<and> 5 < c \<and>
               map_of e Today_volume = Some (Num v) \<and> 0 < v))
   \<and> (stable_opportunities opp = Some es \<longrightarrow>
      map fst e = stable_columns \<and>
      (\<exists>p b m. map_of e Last_traded_price = Some (Num p) \<and> 0 < p \<and>
               map_of e Tri_asi_beta = Some (Num b) \<and> b < 1 \<and>
               map_of e Market_cap = Some (Num m)))"
proof (intro impI conjI)
  assume a: "generate_investment_analysis now rs = Inr (Report rep) \<and>
   investment_opportunities rep = Part opp \<and> e \<in> set es"
  let ?df = "active (DataFrame rs)"
  from a have "identify_opportunities ?df = Inr (Part opp)"
    using report_opportunities by metis
  note lists = identify_opportunities_lists [OF this, of es]
  {
    assume "value_opportunities opp = Some es"
    with lists(1) a obtain r where r: "r \<in> set (rows (value_frame ?df))"
      "e = to_dict value_columns r"
      using in_head_records by blast
    from r(1) obtain v where v: "r \<in> set (rows ?df)" "cell Position_in_ytd_range r = Num v"
      "v < 25"
      using in_value_frame by blast
    from v(1) obtain p where p: "cell Last_traded_price r = Num p" "0 < p"
      using in_active by blast
    from r(2) show "map fst e = value_columns"
      by (simp add: to_dict_keys)
    from r(2) v p show "\<exists>p v. map_of e Last_traded_price = Some (Num p) \<and> 0 < p \<and>
             map_of e Position_in_ytd_range = Some (Num v) \<and> v < 25"
      by (auto simp: to_dict_lookup value_columns_def)
  }
  {
    assume "growth_opportunities opp = Some es"
    with lists(2) a obtain r where r: "r \<in> set (rows (growth_frame ?df))"
      "e = to_dict growth_columns r"
      using in_head_records by blast
    from r(1) obtain c v where v: "r \<in> set (rows ?df)" "cell Change_percentage r = Num c"
      "5 < c" "cell Today_volume r = Num v" "0 < v"
      using in_growth_frame by blast
    from v(1) obtain p where p: "cell Last_traded_price r = Num p" "0 < p"
      using in_active by blast
    from r(2) show "map fst e = growth_columns"
      by (simp add: to_dict_keys)
    from r(2) v p show "\<exists>p c v. map_of e Last_traded_price = Some (Num p) \<and> 0 < p \<and>
               map_of e Change_percentage = Some (Num c) \<and> 5 < c \<and>
               map_of e Today_volume = Some (Num v) \<and> 0 < v"
      by (auto simp: to_dict_lookup growth_columns_def)
  }
  {
    assume "stable_opportunities opp = Some es"
    with lists(3) a obtain r where r: "r \<in> set (rows (stable_frame ?df))"
      "e = to_dict stable_columns r"
      using in_head_records by blast
    from r(1) obtain b m where v: "r \<in> set (rows ?df)" "cell Tri_asi_beta r = Num b" "b < 1"
      "cell Market_cap r = Num m"
      using in_stable_frame by blast
    from v(1) obtain p where p: "cell Last_traded_price r = Num p" "0 < p"
      using in_active by blast
    from r(2) show "map fst e = stable_columns"
      by (simp add: to_dict_keys)
    from r(2) v p show "\<exists>p b m. map_of e Last_traded_price = Some (Num p) \<and> 0 < p \<and>
               map_of e Tri_asi_beta = Some (Num b) \<and> b < 1 \<and>
               map_of e Market_cap = Some (Num m)"
      by (auto simp: to_dict_lookup stable_columns_def)
  }
qed

theorem opportunity_entries_have_their_filter_fields_witness:
  "\<exists>rep opp es e.
     generate_investment_analysis ''2024-01-01 10:00:00'' value_sample = Inr (Report rep) \<and>
     investment_opportunities rep = Part opp \<and> e \<in> set es \<and>
     value_opportunities opp = Some es \<and>
     map fst e = value_columns \<and>
     (\<exists>p v. map_of e Last_traded_price = Some (Num p) \<and> 0 < p \<and>
            map_of e Position_in_ytd_range = Some (Num v) \<and> v < 25)"
proof -
  let ?e = "[(Symbol, Str ''AAA''), (Name, Str ''Alpha''), (Last_traded_price, Num 10),
             (Position_in_ytd_range, Num (100 / 19)), (Market_cap, NaN)]"
  let ?opp = "\<lparr>value_opportunities = Some [?e], growth_opportunities = None,
              stable_opportunities = None\<rparr>"
  from generate_value_sample [of "''2024-01-01 10:00:00''"] obtain rep where
    rep: "generate_investment_analysis ''2024-01-01 10:00:00'' value_sample = Inr (Report rep)"
      "investment_opportunities rep = Part ?opp"
    by blast
  have mem: "?e \<in> set [?e]" and val: "value_opportunities ?opp = Some [?e]"
    by simp_all
  from opportunity_entries_have_their_filter_fields
         [where now = "''2024-01-01 10:00:00''" and rs = value_sample and rep = rep
            and opp = ?opp and e = ?e and es = "[?e]"] rep mem val
  have "map fst ?e = value_columns \<and>
     (\<exists>p v. map_of ?e Last_traded_price = Some (Num p) \<and> 0 < p \<and>
            map_of ?e Position_in_ytd_range = Some (Num v) \<and> v < 25)"
    by blast
  with rep mem val show ?thesis
    by blast
qed

text \<open>
  C9. The active subset holds exactly the records whose last traded price is present and
  positive, so a record whose price is missing or at most zero is excluded; and every
  entry of every opportunity list (value, growth or stable) of a report is the projection
  of a record of the active subset, with a present, positive last price.
\<close>

theorem active_subset_and_opportunities_exclude_inactive:
  "(r \<in> set (rows (active df)) \<longleftrightarrow>
      r \<in> set (rows df) \<and> (\<exists>p. cell Last_traded_price r = Num p \<and> 0 < p))
   \<and> (generate_investment_analysis now rs = Inr (Report rep) \<and>
      investment_opportunities rep = Part opp \<and>
      (value_opportunities opp = Some es \<or> growth_opportunities opp = Some es \<or>
       stable_opportunities opp = Some es) \<and>
      e \<in> set es \<longrightarrow>
      (\<exists>r'\<in>set (rows (active (DataFrame rs))).
         (e = to_dict value_columns r' \<or> e = to_dict growth_columns r' \<or>
          e = to_dict stable_columns r') \<and>
         (\<exists>p. cell Last_traded_price r' = Num p \<and> 0 < p \<and>
              map_of e Last_traded_price = Some (Num p))))"
proof (intro conjI impI)
  show "r \<in> set (rows (active df)) \<longleftrightarrow>
      r \<in> set (rows df) \<and> (\<exists>p. cell Last_traded_price r = Num p \<and> 0 < p)"
    by (rule in_active)
next
  assume a: "generate_investment_analysis now rs = Inr (Report rep) \<and>
      investment_opportunities rep = Part opp \<and>
      (value_opportunities opp = Some es \<or> growth_opportunities opp = Some es \<or>
       stable_opportunities opp = Some es) \<and>
      e \<in> set es"
  let ?df = "active (DataFrame rs)"
  from a have "identify_opportunities ?df = Inr (Part opp)"
    using report_opportunities by metis
  note lists = identify_opportunities_lists [OF this, of es]
  from a consider "value_opportunities opp = Some es" | "growth_opportunities opp = Some es"
    | "stable_opportunities opp = Some es"
    by blast
  then obtain r' where r': "r' \<in> set (rows ?df)"
    "e = to_dict value_columns r' \<or> e = to_dict growth_columns r' \<or>
     e = to_dict stable_columns r'"
  proof cases
    case 1
    with lists(1) a obtain r' where "r' \<in> set (rows (value_frame ?df))"
      "e = to_dict value_columns r'"
      using in_head_records by blast
    with that in_value_frame show ?thesis
      by blast
  next
    case 2
    with lists(2) a obtain r' where "r' \<in> set (rows (growth_frame ?df))"
      "e = to_dict growth_columns r'"
      using in_head_records by blast
    with that in_growth_frame show ?thesis
      by blast
  next
    case 3
    with lists(3) a obtain r' where "r' \<in> set (rows (stable_frame ?df))"
      "e = to_dict stable_columns r'"
      using in_head_records by blast
    with that in_stable_frame show ?thesis
      by blast
  qed
  from r'(1) obtain p where p: "cell Last_traded_price r' = Num p" "0 < p"
    using in_active by blast
  from r'(2) p(1) have "map_of e Last_traded_price = Some (Num p)"
    by (auto simp: to_dict_lookup value_columns_def growth_columns_def stable_columns_def)
  with r' p show "\<exists>r'\<in>set (rows ?df).
         (e = to_dict value_columns r' \<or> e = to_dict growth_columns r' \<or>
          e = to_dict stable_columns r') \<and>
         (\<exists>p. cell Last_traded_price r' = Num p \<and> 0 < p \<and>
              map_of e Last_traded_price = Some (Num p))"
    by blast
qed

theorem active_subset_and_opportunities_exclude_inactive_witness:
  "\<exists>rep opp es e.
     generate_investment_analysis ''2024-01-01 10:00:00'' value_sample = Inr (Report rep) \<and>
     investment_opportunities rep = Part opp \<and>
     value_opportunities opp = Some es \<and> e \<in> set es \<and>
     (\<exists>r'\<in>set (rows (active (DataFrame value_sample))).
        (e = to_dict value_columns r' \<or> e = to_dict growth_columns r' \<or>
         e = to_dict stable_columns r') \<and>
        (\<exists>p. cell Last_traded_price r' = Num p \<and> 0 < p \<and>
             map_of e Last_traded_price = Some (Num p)))"
proof -
  let ?e = "[(Symbol, Str ''AAA''), (Name, Str ''Alpha''), (Last_traded_price, Num 10),
             (Position_in_ytd_range, Num (100 / 19)), (Market_cap, NaN)]"
  let ?opp = "\<lparr>value_opportunities = Some [?e], growth_opportunities = None,
              stable_opportunities = None\<rparr>"
  from generate_value_sample [of "''2024-01-01 10:00:00''"] obtain rep where
    rep: "generate_investment_analysis ''2024-01-01 10:00:00'' value_sample = Inr (Report rep)"
      "investment_opportunities rep = Part ?opp"
    by blast
  have mem: "?e \<in> set [?e]" and val: "value_opportunities ?opp = Some [?e]"
    by simp_all
  from active_subset_and_opportunities_exclude_inactive
         [where now = "''2024-01-01 10:00:00''" and rs = value_sample and rep = rep
            and opp = ?opp and e = ?e and es = "[?e]"] rep mem val
  have "\<exists>r'\<in>set (rows (active (DataFrame value_sample))).
        (?e = to_dict value_columns r' \<or> ?e = to_dict growth_columns r' \<or>
         ?e = to_dict stable_columns r') \<and>
        (\<exists>p. cell Last_traded_price r' = Num p \<and> 0 < p \<and>
             map_of ?e Last_traded_price = Some (Num p))"
    by blast
  with rep mem val show ?thesis
    by blast
qed

end
